theory Spec2Isabelle
  imports Main
begin

section \<open>JavaScript values\<close>

text \<open>
  The timing plugin (\<^verbatim>\<open>packages/core/src/plugins/use-timing.ts\<close>) handles values of
  type \<^verbatim>\<open>unknown\<close>: whatever a field resolver returns or throws. The model keeps what the
  plugin can observe of such a value: its \<^verbatim>\<open>typeof\<close>, its truthiness, and its
  \<^verbatim>\<open>then\<close> member. Objects and functions carry an identity (two objects with the same
  members are different values) and the members reachable from them, own or inherited.
  A member is a data property or an accessor; reading an accessor runs its getter, which
  returns a value or throws. A promise is the platform's own deferred value; the model
  records how it settles. An exotic object (a Proxy, or an object with one on its
  prototype chain) answers membership tests and reads with code of its own: the model
  records whether it is callable and what \<^verbatim>\<open>'then' in x\<close> and \<^verbatim>\<open>x.then\<close> do on it,
  each answering or throwing.
\<close>

datatype ('a, 'e) settle = Fulfils 'a | Rejects 'e | Pending

datatype val =
    Undefined
  | Null
  | Boolean bool
  | Num int
  | Str string
  | Sym nat
  | Obj nat "(string \<times> slot) list"
  | Fn nat "(string \<times> slot) list"
  | Promise "(val, val) settle"
  | Exotic nat bool "val + bool" "val + val"
and slot =
    Data val
  | GetterReturns val
  | GetterThrows val

text \<open>A thrown value is any value; a call either returns or throws.\<close>

datatype outcome = Return val | Throw val

definition TypeError :: val where
  "TypeError = Obj 0 [(''name'', Data (Str ''TypeError''))]"

text \<open>The \<^verbatim>\<open>then\<close> method that every promise inherits from its prototype.\<close>

definition promise_then :: val where
  "promise_then = Fn 0 []"

fun typeof :: "val \<Rightarrow> string" where
  "typeof Undefined = ''undefined''"
| "typeof Null = ''object''"
| "typeof (Boolean b) = ''boolean''"
| "typeof (Num n) = ''number''"
| "typeof (Str s) = ''string''"
| "typeof (Sym k) = ''symbol''"
| "typeof (Obj i ps) = ''object''"
| "typeof (Fn i ps) = ''function''"
| "typeof (Promise s) = ''object''"
| "typeof (Exotic i callable has_then get_then) = (if callable then ''function'' else ''object'')"

text \<open>\<^verbatim>\<open>!!v\<close>\<close>

fun truthy :: "val \<Rightarrow> bool" where
  "truthy Undefined = False"
| "truthy Null = False"
| "truthy (Boolean b) = b"
| "truthy (Num n) = (n \<noteq> 0)"
| "truthy (Str s) = (s \<noteq> [])"
| "truthy (Sym k) = True"
| "truthy (Obj i ps) = True"
| "truthy (Fn i ps) = True"
| "truthy (Promise s) = True"
| "truthy (Exotic i callable has_then get_then) = True"

text \<open>
  \<^verbatim>\<open>key in v\<close>: a TypeError when the right operand is not an object; accessors are not
  run; an exotic object answers or throws by itself. Of the members of a promise and of
  an exotic object the model has \<^verbatim>\<open>then\<close> only.
\<close>

fun js_in :: "string \<Rightarrow> val \<Rightarrow> val + bool" where
  "js_in k (Obj i ps) = Inr (map_of ps k \<noteq> None)"
| "js_in k (Fn i ps) = Inr (map_of ps k \<noteq> None)"
| "js_in k (Promise s) = Inr (k = ''then'')"
| "js_in k (Exotic i callable has_then get_then) = (if k = ''then'' then has_then else Inr False)"
| "js_in k v = Inl TypeError"

definition read_slot :: "slot option \<Rightarrow> val + val" where
  "read_slot s =
     (case s of
        None \<Rightarrow> Inr Undefined
      | Some (Data v) \<Rightarrow> Inr v
      | Some (GetterReturns v) \<Rightarrow> Inr v
      | Some (GetterThrows e) \<Rightarrow> Inl e)"

text \<open>
  \<^verbatim>\<open>v.key\<close>: a TypeError on \<^verbatim>\<open>null\<close> and \<^verbatim>\<open>undefined\<close>, \<^verbatim>\<open>undefined\<close> for a
  member that is not there, the getter's outcome for an accessor.
\<close>

fun js_get :: "val \<Rightarrow> string \<Rightarrow> val + val" where
  "js_get Undefined k = Inl TypeError"
| "js_get Null k = Inl TypeError"
| "js_get (Obj i ps) k = read_slot (map_of ps k)"
| "js_get (Fn i ps) k = read_slot (map_of ps k)"
| "js_get (Promise s) k = Inr (if k = ''then'' then promise_then else Undefined)"
| "js_get (Exotic i callable has_then get_then) k =
     (if k = ''then'' then get_then else Inr Undefined)"
| "js_get v k = Inr Undefined"

subsection \<open>isThenable\<close>

text \<open>
  \<^verbatim>\<open>
  function isThenable(result: unknown): result is Promise<unknown> {
    return (
      ((!!result && typeof result === 'object') || typeof result === 'function') &&
      'then' in result &&
      typeof (result as { then?: unknown }).then === 'function'
    );
  }
  \<close>
  The operands of \<^verbatim>\<open>&&\<close> are evaluated left to right and only as far as needed; the
  result is \<open>Inl e\<close> when an operand throws \<open>e\<close>.
\<close>

definition isThenable :: "val \<Rightarrow> val + bool" where
  "isThenable result =
     (if (truthy result \<and> typeof result = ''object'') \<or> typeof result = ''function'' then
        (case js_in ''then'' result of
           Inl e \<Rightarrow> Inl e
         | Inr False \<Rightarrow> Inr False
         | Inr True \<Rightarrow>
             (case js_get result ''then'' of
                Inl e \<Rightarrow> Inl e
              | Inr t \<Rightarrow> Inr (typeof t = ''function'')))
      else Inr False)"

text \<open>
  The specification's words, independently of the code: a value is deferred when it is
  an object or a function whose \<^verbatim>\<open>then\<close> member is a function. What an observer finds
  who asks a value for its \<^verbatim>\<open>then\<close> member: the value is no object, or it has no such
  member, or the member is there and has a value, or asking throws (a getter that
  throws, an exotic object whose membership test or whose read throws).
\<close>

datatype probe = NotAnObject | NoThen | ThenIs val | ProbeThrows val

fun probe_then :: "val \<Rightarrow> probe" where
  "probe_then (Obj i ps) =
     (case map_of ps ''then'' of
        None \<Rightarrow> NoThen
      | Some (Data t) \<Rightarrow> ThenIs t
      | Some (GetterReturns t) \<Rightarrow> ThenIs t
      | Some (GetterThrows e) \<Rightarrow> ProbeThrows e)"
| "probe_then (Fn i ps) =
     (case map_of ps ''then'' of
        None \<Rightarrow> NoThen
      | Some (Data t) \<Rightarrow> ThenIs t
      | Some (GetterReturns t) \<Rightarrow> ThenIs t
      | Some (GetterThrows e) \<Rightarrow> ProbeThrows e)"
| "probe_then (Promise s) = ThenIs promise_then"
| "probe_then (Exotic i callable has_then get_then) =
     (case has_then of
        Inl e \<Rightarrow> ProbeThrows e
      | Inr False \<Rightarrow> NoThen
      | Inr True \<Rightarrow> (case get_then of Inl e \<Rightarrow> ProbeThrows e | Inr t \<Rightarrow> ThenIs t))"
| "probe_then v = NotAnObject"

fun is_function :: "val \<Rightarrow> bool" where
  "is_function (Fn i ps) = True"
| "is_function (Exotic i callable has_then get_then) = callable"
| "is_function v = False"

definition then_throws :: "val \<Rightarrow> bool" where
  "then_throws v = (case probe_then v of ProbeThrows e \<Rightarrow> True | _ \<Rightarrow> False)"

definition deferred_spec :: "val \<Rightarrow> bool" where
  "deferred_spec v = (case probe_then v of ThenIs t \<Rightarrow> is_function t | _ \<Rightarrow> False)"

section \<open>The clock and the measurements\<close>

text \<open>
  Everything the plugin does to its surroundings goes through a world that is passed
  along: the monotonic clock (\<^verbatim>\<open>process.hrtime\<close>, whose \<open>n\<close>-th reading is
  \<open>clock w n\<close>), the number of times the clock has been read, the measurements handed to
  sinks, and the resolver functions that have been invoked, in order.
\<close>

type_synonym hrtime = "int \<times> int"

record ResultTiming =
  ns :: int

record info =
  parentType :: string
  fieldName :: string

text \<open>
  The request's context object. The plugin reads and writes one member of it,
  \<^verbatim>\<open>context[envelopIsIntrospectionSymbol]\<close>.
\<close>

record Context =
  isIntrospection :: bool
  members :: "(string \<times> val) list"

record ExecutionArgs =
  operationName :: string
  contextValue :: Context

datatype category =
  ContextBuilding | Parsing | Validation | Execution | Subscription | Resolver

text \<open>A sink is the console-logging default or a callback of the caller's.\<close>

datatype sink = ConsoleLog | Callback nat

datatype subject =
    NoSubject
  | OfSource string
  | OfDocument string
  | OfArgs ExecutionArgs
  | OfInfo info

record measurement =
  m_category :: category
  m_sink :: sink
  m_subject :: subject
  m_timing :: ResultTiming

record world =
  clock :: "nat \<Rightarrow> hrtime"
  reads :: nat
  emitted :: "measurement list"
  calls :: "nat list"

definition HR_TO_NS :: int where
  "HR_TO_NS = 1000000000"

text \<open>
  A JavaScript number is an IEEE double. An integer below \<open>2 ^ 53\<close> in size is a double;
  a larger one is rounded to the nearest double, and to the even one of two that are
  equally near. (Beyond the range of doubles the result would be infinite; the clock
  does not get there.)
\<close>

fun width :: "nat \<Rightarrow> nat" where
  "width n = (if n = 0 then 0 else Suc (width (n div 2)))"

declare width.simps [simp del]

definition to_double :: "int \<Rightarrow> int" where
  "to_double n =
     (let a = nat \<bar>n\<bar>
      in if a < 9007199254740992 then n
         else let e = width a - 53; q = a div 2 ^ e; r = a mod 2 ^ e;
                  m = (if 2 ^ e < 2 * r \<or> (2 * r = 2 ^ e \<and> odd q) then q + 1 else q)
              in sgn n * int (m * 2 ^ e))"

text \<open>
  \<^verbatim>\<open>process.hrtime(prev?)\<close>: one reading of the clock; with an earlier reading as its
  argument, the difference to it, as seconds and nanoseconds with the nanoseconds
  brought back into range.
\<close>

definition hr_diff :: "hrtime \<Rightarrow> hrtime \<Rightarrow> hrtime" where
  "hr_diff now prev =
     (let s = fst now - fst prev; n = snd now - snd prev
      in if n < 0 then (s - 1, n + 1000000000) else (s, n))"

definition process_hrtime :: "hrtime option \<Rightarrow> world \<Rightarrow> hrtime \<times> world" where
  "process_hrtime prev w =
     (let now = clock w (reads w); w' = w\<lparr>reads := reads w + 1\<rparr>
      in case prev of None \<Rightarrow> (now, w') | Some p \<Rightarrow> (hr_diff now p, w'))"

text \<open>
  \<^verbatim>\<open>
  const deltaFrom = (hrtime: [number, number]): { ms: number; ns: number } => {
    const delta = process.hrtime(hrtime);
    const ns = delta[0] * HR_TO_NS + delta[1];
    return { ns, get ms() { return ns / NS_TO_MS; } };
  };
  \<close>
  The product and the sum are each rounded to a double. The getter \<^verbatim>\<open>ms\<close> is a
  quotient of doubles that only a sink evaluates; the model of a measurement carries
  \<open>ns\<close> and leaves the getter out.
\<close>

definition elapsed :: "hrtime \<Rightarrow> ResultTiming" where
  "elapsed delta = \<lparr>ns = to_double (to_double (fst delta * HR_TO_NS) + snd delta)\<rparr>"

definition deltaFrom :: "hrtime \<Rightarrow> world \<Rightarrow> ResultTiming \<times> world" where
  "deltaFrom hrtime w =
     (case process_hrtime (Some hrtime) w of (delta, w') \<Rightarrow> (elapsed delta, w'))"

text \<open>
  Calling \<^verbatim>\<open>options.onXMeasurement!(subject, timing)\<close>: a TypeError when the member is
  \<^verbatim>\<open>undefined\<close>, otherwise the sink receives the measurement.
\<close>

datatype completion = Normal | Abrupt val

definition call_sink ::
  "category \<Rightarrow> sink option \<Rightarrow> subject \<Rightarrow> ResultTiming \<Rightarrow> world \<Rightarrow> completion \<times> world" where
  "call_sink c f subj t w =
     (case f of
        None \<Rightarrow> (Abrupt TypeError, w)
      | Some s \<Rightarrow>
          (Normal,
           w\<lparr>emitted := emitted w @
              [\<lparr>m_category = c, m_sink = s, m_subject = subj, m_timing = t\<rparr>]\<rparr>))"

section \<open>Resolvers, hooks and deferred values\<close>

record ResolverArgs =
  root :: val
  args :: val
  ctx :: Context
  info :: info

text \<open>
  A resolver is called with root, args, context and info and returns or throws. A
  function of the schema's author has an identity and a body; calling it is recorded in
  the world.
\<close>

type_synonym resolver = "ResolverArgs \<Rightarrow> world \<Rightarrow> outcome \<times> world"

record fn =
  fn_id :: nat
  fn_body :: "ResolverArgs \<Rightarrow> outcome"

definition call_fn :: "fn \<Rightarrow> resolver" where
  "call_fn f a w = (fn_body f a, w\<lparr>calls := calls w @ [fn_id f]\<rparr>)"

text \<open>
  graphql's \<^verbatim>\<open>defaultFieldResolver\<close>, reduced to the property read it performs on the
  root value.
\<close>

definition defaultFieldResolver :: resolver where
  "defaultFieldResolver =
     call_fn \<lparr>fn_id = 0,
       fn_body = (\<lambda>a. case js_get (root a) (fieldName (info a)) of
                          Inl e \<Rightarrow> Throw e | Inr v \<Rightarrow> Return v)\<rparr>"

text \<open>
  An \<^verbatim>\<open>AfterResolverHook\<close> receives \<^verbatim>\<open>{ result, setResult }\<close>. It returns, having
  called \<^verbatim>\<open>setResult\<close> or not (\<open>Done\<close> carries the last value it set), or it throws.
\<close>

datatype hook_effect = Done "val option" | Raise val

type_synonym afterHook = "val \<Rightarrow> world \<Rightarrow> hook_effect \<times> world"

text \<open>
  What an \<^verbatim>\<open>OnResolverCalledHook\<close> answers, by its type
  \<^verbatim>\<open>PromiseOrValue<void | AfterResolverHook>\<close>: nothing, an after-hook, or a deferred
  value that settles to nothing or to an after-hook. The hook may also throw. Beside
  its answer stands the function it passed to \<^verbatim>\<open>replaceResolverFn\<close>, if any.
\<close>

datatype before =
    Nothing
  | After afterHook
  | Later "(afterHook option, val) settle"
  | Raises val

type_synonym onResolverCalledHook =
  "ResolverArgs \<Rightarrow> resolver \<Rightarrow> world \<Rightarrow> (resolver option \<times> before) \<times> world"

text \<open>
  What a promise is resolved with decides how it settles: another promise is adopted;
  an object whose \<^verbatim>\<open>then\<close> cannot be read rejects; a thenable that is not a promise has
  a \<^verbatim>\<open>then\<close> of unknown code, and the model lets it never call back.
\<close>

definition resolution :: "val \<Rightarrow> (val, val) settle" where
  "resolution v =
     (case v of
        Promise s \<Rightarrow> s
      | Obj i ps \<Rightarrow>
          (case js_get v ''then'' of
             Inl e \<Rightarrow> Rejects e
           | Inr t \<Rightarrow> if typeof t = ''function'' then Pending else Fulfils v)
      | Fn i ps \<Rightarrow>
          (case js_get v ''then'' of
             Inl e \<Rightarrow> Rejects e
           | Inr t \<Rightarrow> if typeof t = ''function'' then Pending else Fulfils v)
      | Exotic i callable has_then get_then \<Rightarrow>
          (case js_get v ''then'' of
             Inl e \<Rightarrow> Rejects e
           | Inr t \<Rightarrow> if typeof t = ''function'' then Pending else Fulfils v)
      | _ \<Rightarrow> Fulfils v)"

definition chain :: "outcome \<times> world \<Rightarrow> val \<times> world" where
  "chain r =
     (case r of
        (Return v, w) \<Rightarrow> (Promise (resolution v), w)
      | (Throw e, w) \<Rightarrow> (Promise (Rejects e), w))"

text \<open>
  \<^verbatim>\<open>p.then(onFulfilled, onRejected)\<close> on a deferred value that settles as \<open>s\<close>: the
  callback for the way it settles runs once, and the promise returned settles with what
  the callback returns or throws. The model follows each deferred value to its
  settlement; a callback of a value that never settles never runs.
\<close>

definition js_then ::
  "('a, val) settle \<Rightarrow> ('a \<Rightarrow> world \<Rightarrow> outcome \<times> world) \<Rightarrow>
   (val \<Rightarrow> world \<Rightarrow> outcome \<times> world) \<Rightarrow> world \<Rightarrow> val \<times> world" where
  "js_then s onFulfilled onRejected w =
     (case s of
        Pending \<Rightarrow> (Promise Pending, w)
      | Fulfils x \<Rightarrow> chain (onFulfilled x w)
      | Rejects e \<Rightarrow> chain (onRejected e w))"

text \<open>\<^verbatim>\<open>p.then(onFulfilled)\<close>: a rejection passes through.\<close>

definition rethrow :: "val \<Rightarrow> world \<Rightarrow> outcome \<times> world" where
  "rethrow e w = (Throw e, w)"

text \<open>
  \<^verbatim>\<open>result.then(onFulfilled, onRejected)\<close> on a value that isThenable accepted: a
  promise, or a thenable whose \<^verbatim>\<open>then\<close> is unknown code and, in the model, returns
  without ever calling back.
\<close>

definition call_then ::
  "val \<Rightarrow> (val \<Rightarrow> world \<Rightarrow> outcome \<times> world) \<Rightarrow>
   (val \<Rightarrow> world \<Rightarrow> outcome \<times> world) \<Rightarrow> world \<Rightarrow> outcome \<times> world" where
  "call_then result onFulfilled onRejected w =
     (case result of
        Promise s \<Rightarrow>
          (case js_then s onFulfilled onRejected w of (p, w') \<Rightarrow> (Return p, w'))
      | _ \<Rightarrow> (Return Undefined, w))"

subsection \<open>resolveField\<close>

text \<open>
  \<^verbatim>\<open>
  function resolveField(resolve: () => unknown, hook: AfterResolverHook) {
    let result;
    try {
      result = resolve();
    } catch (error) {
      hook({ result: error, setResult: newResult => (result = newResult) });
      throw error;
    }
    if (isThenable(result)) {
      result.then(
        resolved => {
          result = resolved;
          hook({ result, setResult: newResult => (result = newResult) });
          return result;
        },
        error => {
          hook({ result: error, setResult: newResult => (result = newResult) });
          throw error;
        }
      );
    }
  }
  \<close>
  The function has no \<^verbatim>\<open>return\<close> statement: where it does not throw, its value is
  \<^verbatim>\<open>undefined\<close>. The promise that \<^verbatim>\<open>then\<close> returns is dropped.
\<close>

definition onFulfilled_cb :: "afterHook \<Rightarrow> val \<Rightarrow> world \<Rightarrow> outcome \<times> world" where
  "onFulfilled_cb hook resolved w =
     (case hook resolved w of
        (Raise e, w') \<Rightarrow> (Throw e, w')
      | (Done newResult, w') \<Rightarrow>
          (Return (case newResult of None \<Rightarrow> resolved | Some r \<Rightarrow> r), w'))"

definition onRejected_cb :: "afterHook \<Rightarrow> val \<Rightarrow> world \<Rightarrow> outcome \<times> world" where
  "onRejected_cb hook error w =
     (case hook error w of
        (Raise e, w') \<Rightarrow> (Throw e, w')
      | (Done newResult, w') \<Rightarrow> (Throw error, w'))"

definition resolveField ::
  "(world \<Rightarrow> outcome \<times> world) \<Rightarrow> afterHook \<Rightarrow> world \<Rightarrow> outcome \<times> world" where
  "resolveField resolveFn hook w =
     (case resolveFn w of
        (Throw error, w1) \<Rightarrow>
          (case hook error w1 of
             (Raise e, w2) \<Rightarrow> (Throw e, w2)
           | (Done newResult, w2) \<Rightarrow> (Throw error, w2))
      | (Return result, w1) \<Rightarrow>
          (case isThenable result of
             Inl e \<Rightarrow> (Throw e, w1)
           | Inr False \<Rightarrow> (Return Undefined, w1)
           | Inr True \<Rightarrow>
               (case call_then result (onFulfilled_cb hook) (onRejected_cb hook) w1 of
                  (Throw e, w2) \<Rightarrow> (Throw e, w2)
                | (Return p, w2) \<Rightarrow> (Return Undefined, w2))))"

subsection \<open>wrapResolver\<close>

record GraphQLFieldConfig =
  field_name :: string
  resolve :: "resolver option"

text \<open>
  \<^verbatim>\<open>
  const originalResolver = field.resolve ?? defaultFieldResolver;
  return { ...field, resolve: (root, args, context, info) => {
      let resolve = originalResolver;
      const after = onResolverCalled({ root, args, context, info,
        resolverFn: resolve, replaceResolverFn: fn => (resolve = fn) });
      if (!after) { return resolve(root, args, context, info); }
      if (isThenable(after)) {
        return after.then(hook => {
          if (!hook) { return resolve(root, args, context, info); }
          return resolveField(() => resolve(root, args, context, info), hook);
        });
      }
      return resolveField(() => resolve(root, args, context, info), after);
  } };
  \<close>
\<close>

definition originalResolver :: "GraphQLFieldConfig \<Rightarrow> resolver" where
  "originalResolver field =
     (case resolve field of Some r \<Rightarrow> r | None \<Rightarrow> defaultFieldResolver)"

definition wrapped_resolve :: "resolver \<Rightarrow> onResolverCalledHook \<Rightarrow> resolver" where
  "wrapped_resolve original onResolverCalled a w =
     (case onResolverCalled a original w of
        ((replaced, after), w1) \<Rightarrow>
          (let resolveFn = (case replaced of None \<Rightarrow> original | Some g \<Rightarrow> g)
           in case after of
                Raises e \<Rightarrow> (Throw e, w1)
              | Nothing \<Rightarrow> resolveFn a w1
              | Later deferred \<Rightarrow>
                  (case js_then deferred
                          (\<lambda>hook w'.
                             case hook of
                               None \<Rightarrow> resolveFn a w'
                             | Some h \<Rightarrow> resolveField (resolveFn a) h w')
                          rethrow w1 of
                     (p, w2) \<Rightarrow> (Return p, w2))
              | After h \<Rightarrow> resolveField (resolveFn a) h w1))"

definition wrapResolver ::
  "GraphQLFieldConfig \<Rightarrow> onResolverCalledHook \<Rightarrow> GraphQLFieldConfig" where
  "wrapResolver field onResolverCalled =
     field\<lparr>resolve := Some (wrapped_resolve (originalResolver field) onResolverCalled)\<rparr>"

section \<open>The plugin\<close>

subsection \<open>Options\<close>

text \<open>
  A member of an options object is absent, or present with the value \<^verbatim>\<open>undefined\<close>
  (\<open>Present None\<close>) or with a value. Reading an absent member gives \<^verbatim>\<open>undefined\<close>.
\<close>

datatype 'a entry = Absent | Present "'a option"

definition read_entry :: "'a entry \<Rightarrow> 'a option" where
  "read_entry e = (case e of Absent \<Rightarrow> None | Present x \<Rightarrow> x)"

text \<open>
  One member of \<^verbatim>\<open>{ ...defaults, ...overrides }\<close>: the override when the key is present
  in the overrides, whatever its value, the default otherwise.
\<close>

definition spread :: "'a entry \<Rightarrow> 'a entry \<Rightarrow> 'a entry" where
  "spread d r = (case r of Absent \<Rightarrow> d | Present x \<Rightarrow> Present x)"

record TimingPluginOptions =
  skipIntrospection :: "bool entry"
  onContextBuildingMeasurement :: "sink entry"
  onExecutionMeasurement :: "sink entry"
  onSubscriptionMeasurement :: "sink entry"
  onParsingMeasurement :: "sink entry"
  onValidationMeasurement :: "sink entry"
  onResolverMeasurement :: "sink entry"

definition DEFAULT_OPTIONS :: TimingPluginOptions where
  "DEFAULT_OPTIONS =
     \<lparr>skipIntrospection = Absent,
      onContextBuildingMeasurement = Present (Some ConsoleLog),
      onExecutionMeasurement = Present (Some ConsoleLog),
      onSubscriptionMeasurement = Present (Some ConsoleLog),
      onParsingMeasurement = Present (Some ConsoleLog),
      onValidationMeasurement = Present (Some ConsoleLog),
      onResolverMeasurement = Present (Some ConsoleLog)\<rparr>"

text \<open>The empty object \<^verbatim>\<open>{}\<close> that stands in for missing options.\<close>

definition no_options :: TimingPluginOptions where
  "no_options =
     \<lparr>skipIntrospection = Absent,
      onContextBuildingMeasurement = Absent,
      onExecutionMeasurement = Absent,
      onSubscriptionMeasurement = Absent,
      onParsingMeasurement = Absent,
      onValidationMeasurement = Absent,
      onResolverMeasurement = Absent\<rparr>"

text \<open>
  \<^verbatim>\<open>const options = { ...DEFAULT_OPTIONS, ...(rawOptions || {}) };\<close>
\<close>

definition merge_options :: "TimingPluginOptions option \<Rightarrow> TimingPluginOptions" where
  "merge_options rawOptions =
     (let r = (case rawOptions of None \<Rightarrow> no_options | Some raw \<Rightarrow> raw); d = DEFAULT_OPTIONS
      in \<lparr>skipIntrospection = spread (skipIntrospection d) (skipIntrospection r),
          onContextBuildingMeasurement =
            spread (onContextBuildingMeasurement d) (onContextBuildingMeasurement r),
          onExecutionMeasurement = spread (onExecutionMeasurement d) (onExecutionMeasurement r),
          onSubscriptionMeasurement =
            spread (onSubscriptionMeasurement d) (onSubscriptionMeasurement r),
          onParsingMeasurement = spread (onParsingMeasurement d) (onParsingMeasurement r),
          onValidationMeasurement =
            spread (onValidationMeasurement d) (onValidationMeasurement r),
          onResolverMeasurement = spread (onResolverMeasurement d) (onResolverMeasurement r)\<rparr>)"

text \<open>\<^verbatim>\<open>if (options.onXMeasurement)\<close>: a callback is truthy, \<^verbatim>\<open>undefined\<close> is not.\<close>

definition enabled :: "sink entry \<Rightarrow> bool" where
  "enabled e = (read_entry e \<noteq> None)"

subsection \<open>Hooks\<close>

text \<open>
  A phase hook answers with an after-callback or with nothing. The parse hook is handed
  \<^verbatim>\<open>extendContext\<close> and not the context: beside its answer stands what it does to the
  context. The schema is the list of its composite fields, and
  \<^verbatim>\<open>mapSchema(schema, { [MapperKind.COMPOSITE_FIELD]: f })\<close> applies \<open>f\<close> to each.
\<close>

type_synonym afterCb = "world \<Rightarrow> completion \<times> world"

record Plugin =
  onContextBuilding :: "(Context \<Rightarrow> world \<Rightarrow> afterCb option \<times> world) option"
  onParse ::
    "(string \<Rightarrow> world \<Rightarrow> (afterCb option \<times> (Context \<Rightarrow> Context)) \<times> world) option"
  onValidate :: "(string \<times> Context \<Rightarrow> world \<Rightarrow> afterCb option \<times> world) option"
  onExecute :: "(ExecutionArgs \<Rightarrow> world \<Rightarrow> afterCb option \<times> world) option"
  onSubscribe :: "(ExecutionArgs \<Rightarrow> world \<Rightarrow> afterCb option \<times> world) option"
  onSchemaChange :: "(GraphQLFieldConfig list \<Rightarrow> GraphQLFieldConfig list) option"
  onResolverCalled :: "onResolverCalledHook option"

definition no_hooks :: Plugin where
  "no_hooks =
     \<lparr>onContextBuilding = None, onParse = None, onValidate = None, onExecute = None,
      onSubscribe = None, onSchemaChange = None, onResolverCalled = None\<rparr>"

text \<open>
  \<^verbatim>\<open>
  result.onContextBuilding = ({ context }) => {
    if (context[envelopIsIntrospectionSymbol]) { return; }
    const contextStartTime = process.hrtime();
    return () => { options.onContextBuildingMeasurement!(deltaFrom(contextStartTime)); };
  };
  \<close>
  In a call the arguments are evaluated before the callee is applied.
\<close>

definition contextBuilding_hook ::
  "TimingPluginOptions \<Rightarrow> Context \<Rightarrow> world \<Rightarrow> afterCb option \<times> world" where
  "contextBuilding_hook options c w =
     (if isIntrospection c then (None, w)
      else case process_hrtime None w of
        (contextStartTime, w1) \<Rightarrow>
          (Some (\<lambda>w'. case deltaFrom contextStartTime w' of
                   (t, w'') \<Rightarrow>
                     call_sink ContextBuilding
                       (read_entry (onContextBuildingMeasurement options)) NoSubject t w''),
           w1))"

text \<open>
  \<^verbatim>\<open>
  result.onParse = ({ params, extendContext }) => {
    if (options.skipIntrospection && isIntrospectionOperationString(params.source)) {
      extendContext({ [envelopIsIntrospectionSymbol]: true });
      return;
    }
    const parseStartTime = process.hrtime();
    return () => { options.onParsingMeasurement!(params.source, deltaFrom(parseStartTime)); };
  };
  \<close>
  \<^verbatim>\<open>isIntrospectionOperationString\<close> comes from \<^verbatim>\<open>../utils\<close> and is a parameter here.
\<close>

definition parse_hook ::
  "(string \<Rightarrow> bool) \<Rightarrow> TimingPluginOptions \<Rightarrow> string \<Rightarrow> world \<Rightarrow>
   (afterCb option \<times> (Context \<Rightarrow> Context)) \<times> world" where
  "parse_hook isIntrospectionOperationString options source w =
     (if read_entry (skipIntrospection options) = Some True
         \<and> isIntrospectionOperationString source
      then ((None, \<lambda>c. c\<lparr>isIntrospection := True\<rparr>), w)
      else case process_hrtime None w of
        (parseStartTime, w1) \<Rightarrow>
          ((Some (\<lambda>w'. case deltaFrom parseStartTime w' of
                    (t, w'') \<Rightarrow>
                      call_sink Parsing (read_entry (onParsingMeasurement options))
                        (OfSource source) t w''),
            \<lambda>c. c),
           w1))"

text \<open>
  \<^verbatim>\<open>
  result.onValidate = ({ params, context }) => {
    if (context[envelopIsIntrospectionSymbol]) { return; }
    const validateStartTime = process.hrtime();
    return () => {
      options.onValidationMeasurement!(params.documentAST, deltaFrom(validateStartTime));
    };
  };
  \<close>
\<close>

definition validate_hook ::
  "TimingPluginOptions \<Rightarrow> string \<times> Context \<Rightarrow> world \<Rightarrow> afterCb option \<times> world" where
  "validate_hook options p w =
     (case p of (documentAST, c) \<Rightarrow>
        if isIntrospection c then (None, w)
        else case process_hrtime None w of
          (validateStartTime, w1) \<Rightarrow>
            (Some (\<lambda>w'. case deltaFrom validateStartTime w' of
                     (t, w'') \<Rightarrow>
                       call_sink Validation (read_entry (onValidationMeasurement options))
                         (OfDocument documentAST) t w''),
             w1))"

text \<open>
  \<^verbatim>\<open>
  result.onExecute = ({ args }) => {
    if (args.contextValue[envelopIsIntrospectionSymbol]) { return; }
    const executeStartTime = process.hrtime();
    return { onExecuteDone: () => {
      options.onExecutionMeasurement!(args, deltaFrom(executeStartTime)); } };
  };
  \<close>
  The same function body stands in both branches of the test on the resolver sink.
\<close>

definition execute_hook ::
  "TimingPluginOptions \<Rightarrow> ExecutionArgs \<Rightarrow> world \<Rightarrow> afterCb option \<times> world" where
  "execute_hook options a w =
     (if isIntrospection (contextValue a) then (None, w)
      else case process_hrtime None w of
        (executeStartTime, w1) \<Rightarrow>
          (Some (\<lambda>w'. case deltaFrom executeStartTime w' of
                   (t, w'') \<Rightarrow>
                     call_sink Execution (read_entry (onExecutionMeasurement options))
                       (OfArgs a) t w''),
           w1))"

text \<open>
  \<^verbatim>\<open>
  result.onSubscribe = ({ args }) => {
    if (args.contextValue[envelopIsIntrospectionSymbol]) { return; }
    const subscribeStartTime = process.hrtime();
    return { onSubscribeResult: () => {
      options.onSubscriptionMeasurement &&
        options.onSubscriptionMeasurement(args, deltaFrom(subscribeStartTime)); } };
  };
  \<close>
  Here the sink is tested before it is called, and the clock is read only if it is there.
\<close>

definition subscribe_hook ::
  "TimingPluginOptions \<Rightarrow> ExecutionArgs \<Rightarrow> world \<Rightarrow> afterCb option \<times> world" where
  "subscribe_hook options a w =
     (if isIntrospection (contextValue a) then (None, w)
      else case process_hrtime None w of
        (subscribeStartTime, w1) \<Rightarrow>
          (Some (\<lambda>w'. if enabled (onSubscriptionMeasurement options)
                        then case deltaFrom subscribeStartTime w' of
                          (t, w'') \<Rightarrow>
                            call_sink Subscription
                              (read_entry (onSubscriptionMeasurement options)) (OfArgs a) t w''
                        else (Normal, w')),
           w1))"

text \<open>
  The per-resolver hook of the execution branch:
  \<^verbatim>\<open>
  result.onResolverCalled = ({ info }) => {
    const resolverStartTime = process.hrtime();
    return () => { options.onResolverMeasurement!(info, deltaFrom(resolverStartTime)); };
  };
  \<close>
  An after-hook that throws is \<open>Raise\<close>; this one never calls \<^verbatim>\<open>setResult\<close>.
\<close>

definition as_effect :: "completion \<times> world \<Rightarrow> hook_effect \<times> world" where
  "as_effect r = (case r of (Normal, w) \<Rightarrow> (Done None, w) | (Abrupt e, w) \<Rightarrow> (Raise e, w))"

definition resolverCalled_hook :: "TimingPluginOptions \<Rightarrow> onResolverCalledHook" where
  "resolverCalled_hook options a resolverFn w =
     (case process_hrtime None w of
        (resolverStartTime, w1) \<Rightarrow>
          ((None,
            After (\<lambda>payload w'. as_effect
                     (case deltaFrom resolverStartTime w' of
                        (t, w'') \<Rightarrow>
                          call_sink Resolver (read_entry (onResolverMeasurement options))
                            (OfInfo (info a)) t w''))),
           w1))"

text \<open>
  The per-resolver hook of the subscription branch, which is also the hook handed to
  wrapResolver:
  \<^verbatim>\<open>
  ({ info }) => {
    const resolverStartTime = process.hrtime();
    return () => {
      options.onResolverMeasurement &&
        options.onResolverMeasurement(info, deltaFrom(resolverStartTime));
    };
  }
  \<close>
\<close>

definition resolverCalled_hook_guarded :: "TimingPluginOptions \<Rightarrow> onResolverCalledHook" where
  "resolverCalled_hook_guarded options a resolverFn w =
     (case process_hrtime None w of
        (resolverStartTime, w1) \<Rightarrow>
          ((None,
            After (\<lambda>payload w'. as_effect
                     (if enabled (onResolverMeasurement options)
                      then case deltaFrom resolverStartTime w' of
                        (t, w'') \<Rightarrow>
                          call_sink Resolver (read_entry (onResolverMeasurement options))
                            (OfInfo (info a)) t w''
                      else (Normal, w')))),
           w1))"

text \<open>
  \<^verbatim>\<open>
  result.onSchemaChange = ({ replaceSchema, schema }) => {
    replaceSchema(mapSchema(schema, {
      [MapperKind.COMPOSITE_FIELD]: field => wrapResolver(field, ({ info }) => ...) }));
  };
  \<close>
  The result is the schema handed to \<^verbatim>\<open>replaceSchema\<close>.
\<close>

definition schemaChange_hook ::
  "TimingPluginOptions \<Rightarrow> GraphQLFieldConfig list \<Rightarrow> GraphQLFieldConfig list" where
  "schemaChange_hook options schema =
     map (\<lambda>field. wrapResolver field (resolverCalled_hook_guarded options)) schema"

subsection \<open>useTiming\<close>

text \<open>
  The hooks are registered one test after the other, as in the source; a later
  assignment to the same member replaces an earlier one.
\<close>

definition useTiming :: "(string \<Rightarrow> bool) \<Rightarrow> TimingPluginOptions option \<Rightarrow> Plugin" where
  "useTiming isIntrospectionOperationString rawOptions =
     (let options = merge_options rawOptions;
          result = no_hooks;
          result =
            (if enabled (onContextBuildingMeasurement options)
             then result\<lparr>onContextBuilding := Some (contextBuilding_hook options)\<rparr>
             else result);
          result =
            (if enabled (onParsingMeasurement options)
             then result\<lparr>onParse := Some (parse_hook isIntrospectionOperationString options)\<rparr>
             else result);
          result =
            (if enabled (onValidationMeasurement options)
             then result\<lparr>onValidate := Some (validate_hook options)\<rparr>
             else result);
          result =
            (if enabled (onExecutionMeasurement options)
             then if enabled (onResolverMeasurement options)
               then result\<lparr>onExecute := Some (execute_hook options),
                           onResolverCalled := Some (resolverCalled_hook options)\<rparr>
               else result\<lparr>onExecute := Some (execute_hook options)\<rparr>
             else result);
          result =
            (if enabled (onSubscriptionMeasurement options)
             then if enabled (onResolverMeasurement options)
               then result\<lparr>onSubscribe := Some (subscribe_hook options),
                           onSchemaChange := Some (schemaChange_hook options),
                           onResolverCalled := Some (resolverCalled_hook_guarded options)\<rparr>
               else result\<lparr>onSubscribe := Some (subscribe_hook options)\<rparr>
             else result)
      in result)"

section \<open>The pipeline around the plugin\<close>

text \<open>
  Modelled from the spec: the orchestrator that calls the hooks is not among the sources.
  By the specification's sections 2, 4.2, 4.3 and 6 the pipeline calls the before-hook
  registered for a phase, runs the phase, and then invokes once the after-callback the
  hook returned; it hands its schema to onSchemaChange and from then on resolves
  through the schema the hook gave to \<^verbatim>\<open>replaceSchema\<close>; its native per-resolver hook
  is called before the resolver and its after-hook once, when the resolver's outcome has
  settled; a hook that answers with nothing, or with a deferred value, is given no
  after-call here. A request is the sequence of its phase and resolver events, all on
  one context.
\<close>

definition run_after :: "afterCb option \<Rightarrow> world \<Rightarrow> completion \<times> world" where
  "run_after after w = (case after of None \<Rightarrow> (Normal, w) | Some f \<Rightarrow> f w)"

definition bracket ::
  "('a \<Rightarrow> world \<Rightarrow> afterCb option \<times> world) option \<Rightarrow> 'a \<Rightarrow> world \<Rightarrow> completion \<times> world" where
  "bracket hook x w =
     (case hook of
        None \<Rightarrow> (Normal, w)
      | Some h \<Rightarrow> (case h x w of (after, w1) \<Rightarrow> run_after after w1))"

text \<open>The value a resolver's outcome settles to, if it settles.\<close>

definition settled :: "outcome \<Rightarrow> val option" where
  "settled r =
     (case r of
        Throw e \<Rightarrow> Some e
      | Return (Promise (Fulfils v)) \<Rightarrow> Some v
      | Return (Promise (Rejects e)) \<Rightarrow> Some e
      | Return (Promise Pending) \<Rightarrow> None
      | Return v \<Rightarrow> Some v)"

definition native_resolve :: "onResolverCalledHook option \<Rightarrow> resolver \<Rightarrow> resolver" where
  "native_resolve hook original a w =
     (case hook of
        None \<Rightarrow> original a w
      | Some h \<Rightarrow>
          (case h a original w of
             ((replaced, after), w1) \<Rightarrow>
               (let resolveFn = (case replaced of None \<Rightarrow> original | Some g \<Rightarrow> g)
                in case after of
                     Raises e \<Rightarrow> (Throw e, w1)
                   | After afterFn \<Rightarrow>
                       (case resolveFn a w1 of
                          (r, w2) \<Rightarrow>
                            (case settled r of
                               None \<Rightarrow> (r, w2)
                             | Some v \<Rightarrow>
                                 (case afterFn v w2 of
                                    (Raise e, w3) \<Rightarrow> (Throw e, w3)
                                  | (Done x, w3) \<Rightarrow> (r, w3))))
                   | _ \<Rightarrow> resolveFn a w1)))"

text \<open>
  The schema the pipeline resolves through, and the resolution of its fields, each
  under the native per-resolver hook.
\<close>

definition current_schema ::
  "Plugin \<Rightarrow> GraphQLFieldConfig list \<Rightarrow> GraphQLFieldConfig list" where
  "current_schema p schema =
     (case onSchemaChange p of None \<Rightarrow> schema | Some change \<Rightarrow> change schema)"

definition resolve_fields ::
  "onResolverCalledHook option \<Rightarrow> GraphQLFieldConfig list \<Rightarrow> ResolverArgs \<Rightarrow> world \<Rightarrow> world" where
  "resolve_fields hook schema a w =
     fold (\<lambda>field w'. snd (native_resolve hook (originalResolver field) a w')) schema w"

datatype event =
    ContextBuild
  | Parse string
  | Validate string
  | Execute string
  | Subscribe string
  | Resolve info fn

fun event_category :: "event \<Rightarrow> category" where
  "event_category ContextBuild = ContextBuilding"
| "event_category (Parse source) = Parsing"
| "event_category (Validate document) = Validation"
| "event_category (Execute operation) = Execution"
| "event_category (Subscribe operation) = Subscription"
| "event_category (Resolve i f) = Resolver"

text \<open>
  An event completes abruptly when a hook of its phase throws; the request stops there.
  What a resolver throws is a field error of the result and does not stop the request.
  The event \<open>Resolve i f\<close> is one invocation of the field that the schema's author gave
  the resolver \<open>f\<close>.
\<close>

fun run_event ::
  "Plugin \<Rightarrow> event \<Rightarrow> Context \<times> world \<Rightarrow> completion \<times> Context \<times> world" where
  "run_event p ContextBuild (c, w) =
     (case bracket (onContextBuilding p) c w of (k, w') \<Rightarrow> (k, c, w'))"
| "run_event p (Parse source) (c, w) =
     (case onParse p of
        None \<Rightarrow> (Normal, c, w)
      | Some h \<Rightarrow>
          (case h source w of
             ((after, extension), w1) \<Rightarrow>
               (case run_after after w1 of (k, w') \<Rightarrow> (k, extension c, w'))))"
| "run_event p (Validate document) (c, w) =
     (case bracket (onValidate p) (document, c) w of (k, w') \<Rightarrow> (k, c, w'))"
| "run_event p (Execute operation) (c, w) =
     (case bracket (onExecute p) \<lparr>operationName = operation, contextValue = c\<rparr> w of
        (k, w') \<Rightarrow> (k, c, w'))"
| "run_event p (Subscribe operation) (c, w) =
     (case bracket (onSubscribe p) \<lparr>operationName = operation, contextValue = c\<rparr> w of
        (k, w') \<Rightarrow> (k, c, w'))"
| "run_event p (Resolve i f) (c, w) =
     (Normal, c,
      resolve_fields (onResolverCalled p)
        (current_schema p [\<lparr>field_name = fieldName i, resolve = Some (call_fn f)\<rparr>])
        \<lparr>root = Undefined, args = Undefined, ctx = c, info = i\<rparr> w)"

fun run_request ::
  "Plugin \<Rightarrow> event list \<Rightarrow> Context \<times> world \<Rightarrow> completion \<times> Context \<times> world" where
  "run_request p [] s = (Normal, s)"
| "run_request p (ev # evs) s =
     (case run_event p ev s of
        (Normal, s') \<Rightarrow> run_request p evs s'
      | (Abrupt e, s') \<Rightarrow> (Abrupt e, s'))"

text \<open>Which member of the options and which hooks of the plugin belong to a category.\<close>

fun sink_of :: "TimingPluginOptions \<Rightarrow> category \<Rightarrow> sink entry" where
  "sink_of options ContextBuilding = onContextBuildingMeasurement options"
| "sink_of options Parsing = onParsingMeasurement options"
| "sink_of options Validation = onValidationMeasurement options"
| "sink_of options Execution = onExecutionMeasurement options"
| "sink_of options Subscription = onSubscriptionMeasurement options"
| "sink_of options Resolver = onResolverMeasurement options"

fun registered :: "Plugin \<Rightarrow> category \<Rightarrow> bool" where
  "registered p ContextBuilding = (onContextBuilding p \<noteq> None)"
| "registered p Parsing = (onParse p \<noteq> None)"
| "registered p Validation = (onValidate p \<noteq> None)"
| "registered p Execution = (onExecute p \<noteq> None)"
| "registered p Subscription = (onSubscribe p \<noteq> None)"
| "registered p Resolver = (onResolverCalled p \<noteq> None \<or> onSchemaChange p \<noteq> None)"

text \<open>
  The categories of the measurements emitted so far, in order, and those among them
  that are not resolver measurements.
\<close>

definition categories :: "world \<Rightarrow> category list" where
  "categories w = map m_category (emitted w)"

definition phase_categories :: "world \<Rightarrow> category list" where
  "phase_categories w = filter (\<lambda>x. x \<noteq> Resolver) (categories w)"

fun is_parse :: "event \<Rightarrow> bool" where
  "is_parse (Parse source) = True"
| "is_parse ev = False"

text \<open>The parse events for which the parse hook sets the marker.\<close>

fun skipped :: "(string \<Rightarrow> bool) \<Rightarrow> TimingPluginOptions \<Rightarrow> event \<Rightarrow> bool" where
  "skipped isIntrospectionOperationString options (Parse source) =
     (read_entry (skipIntrospection options) = Some True
      \<and> isIntrospectionOperationString source)"
| "skipped isIntrospectionOperationString options ev = False"

text \<open>
  What the phase hooks of the plugin measure: the parse hook consults the classification
  of the source and not the context, the other phase hooks consult the marker on the
  context. A resolver invocation is no phase.
\<close>

fun measured ::
  "(string \<Rightarrow> bool) \<Rightarrow> TimingPluginOptions \<Rightarrow> Context \<Rightarrow> event \<Rightarrow> bool" where
  "measured isIntrospectionOperationString options c (Resolve i f) = False"
| "measured isIntrospectionOperationString options c (Parse source) =
     (enabled (onParsingMeasurement options)
      \<and> \<not> skipped isIntrospectionOperationString options (Parse source))"
| "measured isIntrospectionOperationString options c ev =
     (enabled (sink_of options (event_category ev)) \<and> \<not> isIntrospection c)"

text \<open>
  The measurement of a phase that is measured normally: the sink of its category
  receives the phase's own subject and the time between the clock reading taken before
  the phase and the one taken after it.
\<close>

fun subject_of :: "Context \<Rightarrow> event \<Rightarrow> subject" where
  "subject_of c ContextBuild = NoSubject"
| "subject_of c (Parse source) = OfSource source"
| "subject_of c (Validate document) = OfDocument document"
| "subject_of c (Execute operation) =
     OfArgs \<lparr>operationName = operation, contextValue = c\<rparr>"
| "subject_of c (Subscribe operation) =
     OfArgs \<lparr>operationName = operation, contextValue = c\<rparr>"
| "subject_of c (Resolve i f) = OfInfo i"

definition normal_measurement :: "sink \<Rightarrow> Context \<Rightarrow> event \<Rightarrow> world \<Rightarrow> measurement" where
  "normal_measurement s c ev w =
     \<lparr>m_category = event_category ev, m_sink = s, m_subject = subject_of c ev,
      m_timing = elapsed (hr_diff (clock w (Suc (reads w))) (clock w (reads w)))\<rparr>"

section \<open>Scenarios\<close>

text \<open>
  The inputs of the specification's end-to-end scenarios: a stub clock that advances by
  5,000,000 ns from one reading to the next, a resolver that returns 42, one that
  returns a deferred value rejecting with "boom", one that throws "boom".
\<close>

definition stub_world :: world where
  "stub_world =
     \<lparr>clock = (\<lambda>n. (0, 5000000 * int n)), reads = 0, emitted = [], calls = []\<rparr>"

definition plain_context :: Context where
  "plain_context = \<lparr>isIntrospection = False, members = []\<rparr>"

definition some_info :: info where
  "some_info = \<lparr>parentType = ''Query'', fieldName = ''answer''\<rparr>"

definition some_args :: ResolverArgs where
  "some_args = \<lparr>root = Undefined, args = Undefined, ctx = plain_context, info = some_info\<rparr>"

definition answer_fn :: fn where
  "answer_fn = \<lparr>fn_id = 1, fn_body = (\<lambda>a. Return (Num 42))\<rparr>"

definition answer_field :: GraphQLFieldConfig where
  "answer_field = \<lparr>field_name = ''answer'', resolve = Some (call_fn answer_fn)\<rparr>"

definition rejecting_fn :: fn where
  "rejecting_fn = \<lparr>fn_id = 2, fn_body = (\<lambda>a. Return (Promise (Rejects (Str ''boom''))))\<rparr>"

definition throwing_fn :: fn where
  "throwing_fn = \<lparr>fn_id = 3, fn_body = (\<lambda>a. Throw (Str ''boom''))\<rparr>"

text \<open>An after-hook that leaves the result alone.\<close>

definition watching_hook :: afterHook where
  "watching_hook payload w = (Done None, w)"

text \<open>
  A stand-in for the classifier of operation texts in the scenarios: it recognises one
  introspection query. The options of the scenarios: the defaults with
  \<^verbatim>\<open>skipIntrospection: true\<close>, the defaults with the parsing sink set to
  \<^verbatim>\<open>undefined\<close>, and both together.
\<close>

definition introspection_query :: string where
  "introspection_query = ''{ __schema { types { name } } }''"

definition mentions_schema :: "string \<Rightarrow> bool" where
  "mentions_schema source = (source = introspection_query)"

definition skipping_options :: TimingPluginOptions where
  "skipping_options = no_options\<lparr>skipIntrospection := Present (Some True)\<rparr>"

definition unparsed_options :: TimingPluginOptions where
  "unparsed_options = no_options\<lparr>onParsingMeasurement := Present None\<rparr>"

definition skipping_unparsed_options :: TimingPluginOptions where
  "skipping_unparsed_options = skipping_options\<lparr>onParsingMeasurement := Present None\<rparr>"

text \<open>
  Two before-hooks: one answers with that after-hook; one replaces the resolver by the
  throwing one and answers with a deferred value that settles to it.
\<close>

definition watching_before :: onResolverCalledHook where
  "watching_before a resolverFn w = ((None, After watching_hook), w)"

definition replacing_before :: onResolverCalledHook where
  "replacing_before a resolverFn w =
     ((Some (call_fn throwing_fn), Later (Fulfils (Some watching_hook))), w)"

text \<open>
  Options that set the validation sink to \<^verbatim>\<open>undefined\<close>, and options that set the
  subscription sink to \<^verbatim>\<open>undefined\<close>.
\<close>

definition unvalidated_options :: TimingPluginOptions where
  "unvalidated_options = no_options\<lparr>onValidationMeasurement := Present None\<rparr>"

definition unsubscribed_options :: TimingPluginOptions where
  "unsubscribed_options = no_options\<lparr>onSubscriptionMeasurement := Present None\<rparr>"

section \<open>Properties of isThenable\<close>

lemma typeof_function_iff: "typeof t = ''function'' \<longleftrightarrow> is_function t"
  by (cases t) simp_all

lemma isThenable_cases:
  "isThenable v =
     (case probe_then v of
        ProbeThrows e \<Rightarrow> Inl e
      | ThenIs t \<Rightarrow> Inr (is_function t)
      | _ \<Rightarrow> Inr False)"
proof (cases v)
  case (Obj i ps)
  then show ?thesis
    by (cases "map_of ps ''then''")
       (auto simp: isThenable_def read_slot_def typeof_function_iff split: slot.splits)
next
  case (Fn i ps)
  then show ?thesis
    by (cases "map_of ps ''then''")
       (auto simp: isThenable_def read_slot_def typeof_function_iff split: slot.splits)
next
  case (Promise s)
  then show ?thesis
    by (simp add: isThenable_def promise_then_def)
next
  case (Exotic i callable has_then get_then)
  then show ?thesis
    by (auto simp: isThenable_def typeof_function_iff split: sum.splits bool.splits)
qed (simp_all add: isThenable_def)

text \<open>
  C7, as stated, at an object whose \<^verbatim>\<open>then\<close> member is an accessor that throws:
  \<^verbatim>\<open>isThenable({ get then() { throw 'boom' } })\<close> passes the \<^verbatim>\<open>typeof\<close> test and the
  \<^verbatim>\<open>in\<close> test, reads the member and throws: the classification is not total.
\<close>

theorem isThenable_throwing_getter:
  "isThenable (Obj 1 [(''then'', GetterThrows (Str ''boom''))]) = Inl (Str ''boom'')"
  by (simp add: isThenable_def read_slot_def)

text \<open>
  C7, amended: for every value on which asking for the \<^verbatim>\<open>then\<close> member does not throw
  (every primitive, \<^verbatim>\<open>null\<close>, \<^verbatim>\<open>undefined\<close>, every promise, every object or function
  whose \<^verbatim>\<open>then\<close> is absent, a data property or a getter that returns, and every exotic
  object whose membership test and, where that answers true, whose read of \<^verbatim>\<open>then\<close>
  answer), isThenable returns without throwing, and it answers true exactly when the
  value is an object or function that has a \<^verbatim>\<open>then\<close> member, by the \<^verbatim>\<open>in\<close> test, and
  that member is a function.
\<close>

theorem isThenable_total_and_exact:
  assumes "\<not> then_throws v"
  shows "isThenable v = Inr (deferred_spec v)"
  using assms
  by (simp add: isThenable_cases then_throws_def deferred_spec_def split: probe.splits)

theorem isThenable_total_and_exact_witness:
  "\<not> then_throws (Fn 7 []) \<and> isThenable (Fn 7 []) = Inr False
   \<and> \<not> then_throws (Obj 3 [(''then'', Data (Fn 4 []))])
   \<and> isThenable (Obj 3 [(''then'', Data (Fn 4 []))]) = Inr True
   \<and> \<not> then_throws (Exotic 5 False (Inr False) (Inl (Str ''trap'')))
   \<and> isThenable (Exotic 5 False (Inr False) (Inl (Str ''trap''))) = Inr False"
  using isThenable_total_and_exact [of "Fn 7 []"]
        isThenable_total_and_exact [of "Obj 3 [(''then'', Data (Fn 4 []))]"]
        isThenable_total_and_exact [of "Exotic 5 False (Inr False) (Inl (Str ''trap''))"]
  by (simp add: then_throws_def deferred_spec_def)

text \<open>
  Where asking does throw, isThenable throws the same error: so it does on a Proxy whose
  \<^verbatim>\<open>has\<close> trap throws, although reading its \<^verbatim>\<open>then\<close> would not.
\<close>

lemma isThenable_throws_iff: "isThenable v = Inl e \<longleftrightarrow> probe_then v = ProbeThrows e"
  by (simp add: isThenable_cases split: probe.splits)

lemma isThenable_throwing_has_trap:
  "isThenable (Exotic 2 False (Inl (Str ''trap'')) (Inr Undefined)) = Inl (Str ''trap'')"
  by (simp add: isThenable_def)

section \<open>The measured span\<close>

text \<open>
  The nanoseconds of a measurement are a double: not negative when the components of
  the difference are not negative, exact below \<open>2 ^ 53\<close>, rounded above.
\<close>

lemma to_double_nonneg: "0 \<le> n \<Longrightarrow> 0 \<le> to_double n"
  unfolding to_double_def Let_def by (simp add: sgn_if)

lemma to_double_exact: "\<bar>n\<bar> < 9007199254740992 \<Longrightarrow> to_double n = n"
  unfolding to_double_def Let_def by auto

lemma elapsed_nonneg:
  assumes "0 \<le> fst delta" and "0 \<le> snd delta"
  shows "0 \<le> ns (elapsed delta)"
  using assms by (simp add: elapsed_def HR_TO_NS_def to_double_nonneg)

lemma width_between: "2 ^ k \<le> n \<Longrightarrow> n < 2 ^ Suc k \<Longrightarrow> width n = Suc k"
proof (induction k arbitrary: n)
  case 0
  then have "n = 1" by simp
  then show ?case by (simp add: width.simps [of "Suc 0"] width.simps [of 0])
next
  case (Suc k)
  from Suc.prems have "2 ^ k \<le> n div 2" and "n div 2 < 2 ^ Suc k"
    by simp_all
  then have "width (n div 2) = Suc k"
    by (rule Suc.IH)
  moreover from Suc.prems have "n \<noteq> 0"
    by auto
  ultimately show ?case
    by (simp add: width.simps [of n])
qed

lemma to_double_rounds: "to_double 9007199254740993 = 9007199254740992"
proof -
  have "width 9007199254740993 = Suc 53"
    by (rule width_between) simp_all
  then show ?thesis
    by (simp add: to_double_def Let_def)
qed

lemma elapsed_rounds: "ns (elapsed (9007199, 254740993)) = 9007199254740992"
  by (simp add: elapsed_def HR_TO_NS_def to_double_exact to_double_rounds)

section \<open>Unfolding the model\<close>

lemmas scenario_defs = stub_world_def plain_context_def some_info_def some_args_def answer_fn_def
  answer_field_def rejecting_fn_def throwing_fn_def watching_hook_def
  mentions_schema_def introspection_query_def skipping_options_def
  skipping_unparsed_options_def watching_before_def replacing_before_def
  unvalidated_options_def unsubscribed_options_def unparsed_options_def

lemmas clock_defs = process_hrtime_def deltaFrom_def hr_diff_def call_sink_def Let_def

lemmas timing_defs = elapsed_def HR_TO_NS_def to_double_exact

lemmas wrap_defs = wrapResolver_def wrapped_resolve_def originalResolver_def resolveField_def
  call_then_def js_then_def chain_def resolution_def rethrow_def onFulfilled_cb_def
  onRejected_cb_def call_fn_def as_effect_def

lemmas option_defs = merge_options_def DEFAULT_OPTIONS_def no_options_def spread_def
  read_entry_def enabled_def Let_def

section \<open>Which hooks useTiming registers\<close>

lemma useTiming_onContextBuilding:
  "onContextBuilding (useTiming cl raw) =
     (if enabled (onContextBuildingMeasurement (merge_options raw))
      then Some (contextBuilding_hook (merge_options raw)) else None)"
  by (simp add: useTiming_def Let_def no_hooks_def)

lemma useTiming_onParse:
  "onParse (useTiming cl raw) =
     (if enabled (onParsingMeasurement (merge_options raw))
      then Some (parse_hook cl (merge_options raw)) else None)"
  by (simp add: useTiming_def Let_def no_hooks_def)

lemma useTiming_onValidate:
  "onValidate (useTiming cl raw) =
     (if enabled (onValidationMeasurement (merge_options raw))
      then Some (validate_hook (merge_options raw)) else None)"
  by (simp add: useTiming_def Let_def no_hooks_def)

lemma useTiming_onExecute:
  "onExecute (useTiming cl raw) =
     (if enabled (onExecutionMeasurement (merge_options raw))
      then Some (execute_hook (merge_options raw)) else None)"
  by (simp add: useTiming_def Let_def no_hooks_def)

lemma useTiming_onSubscribe:
  "onSubscribe (useTiming cl raw) =
     (if enabled (onSubscriptionMeasurement (merge_options raw))
      then Some (subscribe_hook (merge_options raw)) else None)"
  by (simp add: useTiming_def Let_def no_hooks_def)

lemma useTiming_onSchemaChange:
  "onSchemaChange (useTiming cl raw) =
     (if enabled (onSubscriptionMeasurement (merge_options raw))
         \<and> enabled (onResolverMeasurement (merge_options raw))
      then Some (schemaChange_hook (merge_options raw)) else None)"
  by (simp add: useTiming_def Let_def no_hooks_def)

lemma useTiming_onResolverCalled:
  "onResolverCalled (useTiming cl raw) =
     (if enabled (onResolverMeasurement (merge_options raw))
      then if enabled (onSubscriptionMeasurement (merge_options raw))
        then Some (resolverCalled_hook_guarded (merge_options raw))
        else if enabled (onExecutionMeasurement (merge_options raw))
          then Some (resolverCalled_hook (merge_options raw)) else None
      else None)"
  by (simp add: useTiming_def Let_def no_hooks_def)

lemmas useTiming_hooks = useTiming_onContextBuilding useTiming_onParse useTiming_onValidate
  useTiming_onExecute useTiming_onSubscribe useTiming_onSchemaChange useTiming_onResolverCalled

section \<open>resolveField and the wrapped resolver\<close>

lemma snd_chain: "snd (chain r) = snd r"
  by (cases r) (simp add: chain_def split: outcome.splits)

lemma onFulfilled_cb_calls:
  assumes "\<And>v w'. calls (snd (hook v w')) = calls w'"
  shows "calls (snd (onFulfilled_cb hook v w)) = calls w"
  using assms [of v w]
  by (auto simp: onFulfilled_cb_def split: prod.splits hook_effect.splits)

lemma onRejected_cb_calls:
  assumes "\<And>v w'. calls (snd (hook v w')) = calls w'"
  shows "calls (snd (onRejected_cb hook v w)) = calls w"
  using assms [of v w]
  by (auto simp: onRejected_cb_def split: prod.splits hook_effect.splits)

lemma js_then_calls:
  assumes "\<And>x w'. calls (snd (f x w')) = calls w' @ extra"
    and "\<And>e w'. calls (snd (g e w')) = calls w'"
  shows "calls (snd (js_then s f g w))
           = calls w @ (case s of Fulfils x \<Rightarrow> extra | _ \<Rightarrow> [])"
  using assms by (cases s) (simp_all add: js_then_def snd_chain)

lemma call_then_calls:
  assumes "\<And>x w'. calls (snd (f x w')) = calls w'"
    and "\<And>e w'. calls (snd (g e w')) = calls w'"
  shows "calls (snd (call_then result f g w)) = calls w"
proof (cases result)
  case (Promise s)
  have "calls (snd (js_then s f g w)) = calls w @ (case s of Fulfils x \<Rightarrow> [] | _ \<Rightarrow> [])"
    using assms by (intro js_then_calls) simp_all
  then have "calls (snd (js_then s f g w)) = calls w"
    by (simp split: settle.splits)
  with Promise show ?thesis
    by (auto simp: call_then_def split: prod.splits)
qed (simp_all add: call_then_def)

lemma resolveField_calls:
  assumes "\<And>v w'. calls (snd (hook v w')) = calls w'"
  shows "calls (snd (resolveField resolveFn hook w)) = calls (snd (resolveFn w))"
proof (cases "resolveFn w")
  case (Pair r w1)
  show ?thesis
  proof (cases r)
    case (Throw error)
    with Pair assms [of error w1] show ?thesis
      by (auto simp: resolveField_def split: prod.splits hook_effect.splits)
  next
    case (Return result)
    have "calls (snd (call_then result (onFulfilled_cb hook) (onRejected_cb hook) w1))
            = calls w1"
      using assms by (intro call_then_calls onFulfilled_cb_calls onRejected_cb_calls)
    with Pair Return show ?thesis
      by (auto simp: resolveField_def split: prod.splits sum.splits bool.splits outcome.splits)
  qed
qed

lemma resolveField_throw:
  assumes "resolveFn w = (Throw error, w1)" and "hook error w1 = (Done x, w2)"
  shows "resolveField resolveFn hook w = (Throw error, w2)"
  using assms by (simp add: resolveField_def)

lemma resolveField_returns_undefined:
  "fst (resolveField resolveFn hook w) = Return v \<Longrightarrow> v = Undefined"
  by (auto simp: resolveField_def
        split: prod.splits sum.splits bool.splits outcome.splits hook_effect.splits)

lemma originalResolver_wrapResolver:
  "originalResolver (wrapResolver field hookFn)
     = wrapped_resolve (originalResolver field) hookFn"
  by (simp add: wrapResolver_def originalResolver_def)

text \<open>
  C3: whatever the resolver does (return a plain value, throw, return a deferred value
  that resolves, rejects or never settles), and whether the before-hook answers with
  nothing, with an after-hook, or with a deferred value that settles to nothing or to an
  after-hook, one call of the wrapped resolver invokes the original function, or the
  replacement the hook installed, exactly once, after the before-hook has returned.
\<close>

theorem wrapResolver_invokes_once:
  assumes "originalResolver field = call_fn f"
    and "hookFn a (call_fn f) w = ((map_option call_fn replacement, b), w1)"
    and "b = Nothing \<or> b = After h \<or> b = Later (Fulfils None) \<or> b = Later (Fulfils (Some h))"
    and "\<And>v w'. calls (snd (h v w')) = calls w'"
  shows "calls (snd (originalResolver (wrapResolver field hookFn) a w))
           = calls w1 @ [fn_id (case replacement of None \<Rightarrow> f | Some g \<Rightarrow> g)]"
proof -
  let ?g = "case replacement of None \<Rightarrow> f | Some g \<Rightarrow> g"
  have run: "wrapped_resolve (call_fn f) hookFn a w =
      (case b of
         Nothing \<Rightarrow> call_fn ?g a w1
       | After h' \<Rightarrow> resolveField (call_fn ?g a) h' w1
       | Later d \<Rightarrow>
           (case js_then d
                   (\<lambda>hook w'. case hook of
                       None \<Rightarrow> call_fn ?g a w'
                     | Some h' \<Rightarrow> resolveField (call_fn ?g a) h' w')
                   rethrow w1 of
              (p, w2) \<Rightarrow> (Return p, w2))
       | Raises e \<Rightarrow> (Throw e, w1))"
    using assms(2)
    by (cases replacement; cases b)
       (simp_all add: wrapped_resolve_def Let_def cong: option.case_cong)
  have once: "\<And>w'. calls (snd (call_fn ?g a w')) = calls w' @ [fn_id ?g]"
    by (simp add: call_fn_def)
  have field: "\<And>w'. calls (snd (resolveField (call_fn ?g a) h w')) = calls w' @ [fn_id ?g]"
    using resolveField_calls [of h "call_fn ?g a"] assms(4) once by simp
  from assms(3) consider "b = Nothing" | "b = After h" | "b = Later (Fulfils None)"
    | "b = Later (Fulfils (Some h))"
    by blast
  then have "calls (snd (wrapped_resolve (call_fn f) hookFn a w))
               = calls w1 @ [fn_id ?g]"
  proof cases
    case 1
    with once show ?thesis
      by (simp add: run)
  next
    case 2
    with field show ?thesis
      by (simp add: run)
  next
    case 3
    with once [of w1] show ?thesis
      by (simp add: run js_then_def snd_chain case_prod_beta)
  next
    case 4
    with field [of w1] show ?thesis
      by (simp add: run js_then_def snd_chain case_prod_beta)
  qed
  with assms(1) show ?thesis
    by (simp add: originalResolver_wrapResolver)
qed

theorem wrapResolver_invokes_once_witness:
  "calls (snd (originalResolver (wrapResolver answer_field replacing_before)
                 some_args stub_world)) = [3]"
proof -
  have orig: "originalResolver answer_field = call_fn answer_fn"
    by (simp add: originalResolver_def answer_field_def)
  have hook: "replacing_before some_args (call_fn answer_fn) stub_world
                = ((map_option call_fn (Some throwing_fn),
                    Later (Fulfils (Some watching_hook))), stub_world)"
    by (simp add: replacing_before_def)
  have quiet: "\<And>v w'. calls (snd (watching_hook v w')) = calls w'"
    by (simp add: watching_hook_def)
  have answer: "Later (Fulfils (Some watching_hook)) = Nothing
      \<or> Later (Fulfils (Some watching_hook)) = After watching_hook
      \<or> Later (Fulfils (Some watching_hook)) = Later (Fulfils None)
      \<or> Later (Fulfils (Some watching_hook)) = Later (Fulfils (Some watching_hook))"
    by simp
  from wrapResolver_invokes_once [where field = answer_field and f = answer_fn
         and hookFn = replacing_before and a = some_args and w = stub_world
         and ?w1.0 = stub_world and replacement = "Some throwing_fn"
         and b = "Later (Fulfils (Some watching_hook))" and h = watching_hook,
         OF orig hook answer quiet]
  show ?thesis
    by (simp add: stub_world_def throwing_fn_def)
qed

section \<open>What the wrapped resolver hands back\<close>

text \<open>
  With an after-hook obtained synchronously, a value the resolver returns is lost,
  plain or deferred, and for a plain value the after-hook is not even called; an error
  the resolver throws is thrown again whatever the after-hook sets. With an after-hook
  obtained from a deferred value the thrown error rejects the deferred value handed
  back.
\<close>

lemma plain_value_is_lost:
  assumes "hookFn a (call_fn f) w = ((None, After h), w1)"
    and "fn_body f a = Return v" and "isThenable v = Inr False"
  shows "wrapped_resolve (call_fn f) hookFn a w
           = (Return Undefined, w1\<lparr>calls := calls w1 @ [fn_id f]\<rparr>)"
  using assms by (simp add: wrapped_resolve_def resolveField_def call_fn_def)

lemma deferred_value_is_lost:
  assumes "hookFn a (call_fn f) w = ((None, After h), w1)"
    and "fn_body f a = Return (Promise s)"
  shows "fst (wrapped_resolve (call_fn f) hookFn a w) = Return Undefined"
  using assms
  by (simp add: wrapped_resolve_def resolveField_def call_fn_def call_then_def isThenable_def
        promise_then_def case_prod_beta)


lemma thrown_error_becomes_rejection:
  assumes "hookFn a (call_fn f) w = ((None, Later (Fulfils (Some h))), w1)"
    and "fn_body f a = Throw e"
    and "h e (w1\<lparr>calls := calls w1 @ [fn_id f]\<rparr>) = (Done x, w2)"
  shows "wrapped_resolve (call_fn f) hookFn a w = (Return (Promise (Rejects e)), w2)"
  using assms
  by (simp add: wrapped_resolve_def resolveField_def call_fn_def js_then_def chain_def)

text \<open>
  C1 at the specification's scenario: the schema rewritten by the plugin with its
  default options, a resolver that returns 42, the stub clock. The wrapped resolver
  invokes the resolver once, reads the clock once, and returns \<^verbatim>\<open>undefined\<close>; the
  sink receives nothing.
\<close>

theorem wrapped_answer_is_undefined:
  "map (\<lambda>field. fst (originalResolver field some_args stub_world))
     (schemaChange_hook (merge_options None) [answer_field]) = [Return Undefined]
   \<and> map (\<lambda>field. emitted (snd (originalResolver field some_args stub_world)))
     (schemaChange_hook (merge_options None) [answer_field]) = [[]]
   \<and> map (\<lambda>field. calls (snd (originalResolver field some_args stub_world)))
     (schemaChange_hook (merge_options None) [answer_field]) = [[1]]"
  by (simp add: schemaChange_hook_def scenario_defs wrap_defs clock_defs option_defs
        resolverCalled_hook_guarded_def isThenable_def)

text \<open>
  C2 at the specification's scenario: a resolver whose deferred value rejects with
  "boom". The after-hook sees the rejection and the sink receives one measurement of
  5,000,000 ns, but the wrapped resolver returns \<^verbatim>\<open>undefined\<close>: the rejection does not
  reach its caller.
\<close>

theorem wrapped_rejection_is_dropped:
  "fst (wrapped_resolve (call_fn rejecting_fn) (resolverCalled_hook_guarded (merge_options None))
          some_args stub_world) = Return Undefined
   \<and> map (\<lambda>m. (m_category m, ns (m_timing m)))
        (emitted (snd (wrapped_resolve (call_fn rejecting_fn)
           (resolverCalled_hook_guarded (merge_options None)) some_args stub_world)))
       = [(Resolver, 5000000)]"
  by (simp add: scenario_defs wrap_defs clock_defs timing_defs option_defs
        resolverCalled_hook_guarded_def isThenable_def promise_then_def)




section \<open>What one event of a request measures\<close>

lemma phase_measured:
  assumes "measured cl (merge_options raw) c ev"
    and "read_entry (sink_of (merge_options raw) (event_category ev)) = Some s"
  shows "run_event (useTiming cl raw) ev (c, w) =
           (Normal, c,
            w\<lparr>reads := reads w + 2,
              emitted := emitted w @ [normal_measurement s c ev w]\<rparr>)"
proof (cases ev)
  case ContextBuild
  with assms show ?thesis
    by (simp add: useTiming_hooks bracket_def run_after_def contextBuilding_hook_def
          process_hrtime_def deltaFrom_def call_sink_def Let_def normal_measurement_def)
next
  case (Parse source)
  with assms show ?thesis
    by (auto simp: useTiming_hooks run_after_def parse_hook_def process_hrtime_def
          deltaFrom_def call_sink_def Let_def normal_measurement_def)
next
  case (Validate document)
  with assms show ?thesis
    by (simp add: useTiming_hooks bracket_def run_after_def validate_hook_def
          process_hrtime_def deltaFrom_def call_sink_def Let_def normal_measurement_def)
next
  case (Execute operation)
  with assms show ?thesis
    by (simp add: useTiming_hooks bracket_def run_after_def execute_hook_def
          process_hrtime_def deltaFrom_def call_sink_def Let_def normal_measurement_def)
next
  case (Subscribe operation)
  with assms show ?thesis
    by (simp add: useTiming_hooks bracket_def run_after_def subscribe_hook_def
          process_hrtime_def deltaFrom_def call_sink_def Let_def normal_measurement_def)
next
  case (Resolve i f)
  with assms show ?thesis
    by simp
qed

lemma phase_not_measured:
  assumes "\<not> measured cl (merge_options raw) c ev" and "event_category ev \<noteq> Resolver"
  shows "run_event (useTiming cl raw) ev (c, w) =
           (Normal,
            if enabled (onParsingMeasurement (merge_options raw))
               \<and> skipped cl (merge_options raw) ev
            then c\<lparr>isIntrospection := True\<rparr> else c,
            w)"
proof (cases ev)
  case ContextBuild
  with assms show ?thesis
    by (auto simp: useTiming_hooks bracket_def run_after_def contextBuilding_hook_def)
next
  case (Parse source)
  with assms show ?thesis
    by (auto simp: useTiming_hooks run_after_def parse_hook_def)
next
  case (Validate document)
  with assms show ?thesis
    by (auto simp: useTiming_hooks bracket_def run_after_def validate_hook_def)
next
  case (Execute operation)
  with assms show ?thesis
    by (auto simp: useTiming_hooks bracket_def run_after_def execute_hook_def)
next
  case (Subscribe operation)
  with assms show ?thesis
    by (auto simp: useTiming_hooks bracket_def run_after_def subscribe_hook_def)
next
  case (Resolve i f)
  with assms show ?thesis
    by simp
qed

section \<open>What a resolver invocation leaves alone\<close>

lemma onFulfilled_cb_keeps:
  assumes "\<And>v w'. obs (snd (hook v w')) = obs w'"
  shows "obs (snd (onFulfilled_cb hook v w)) = obs w"
  using assms [of v w]
  by (auto simp: onFulfilled_cb_def split: prod.splits hook_effect.splits)

lemma onRejected_cb_keeps:
  assumes "\<And>v w'. obs (snd (hook v w')) = obs w'"
  shows "obs (snd (onRejected_cb hook v w)) = obs w"
  using assms [of v w]
  by (auto simp: onRejected_cb_def split: prod.splits hook_effect.splits)

lemma call_then_keeps:
  assumes "\<And>x w'. obs (snd (f x w')) = obs w'"
    and "\<And>e w'. obs (snd (g e w')) = obs w'"
  shows "obs (snd (call_then result f g w)) = obs w"
proof (cases result)
  case (Promise s)
  have "obs (snd (js_then s f g w)) = obs w"
    using assms by (cases s) (simp_all add: js_then_def snd_chain)
  with Promise show ?thesis
    by (auto simp: call_then_def split: prod.splits)
qed (simp_all add: call_then_def)

lemma resolveField_keeps:
  assumes "\<And>v w'. obs (snd (hook v w')) = obs w'"
  shows "obs (snd (resolveField resolveFn hook w)) = obs (snd (resolveFn w))"
proof (cases "resolveFn w")
  case (Pair r w1)
  show ?thesis
  proof (cases r)
    case (Throw error)
    with Pair assms [of error w1] show ?thesis
      by (auto simp: resolveField_def split: prod.splits hook_effect.splits)
  next
    case (Return result)
    have "obs (snd (call_then result (onFulfilled_cb hook) (onRejected_cb hook) w1)) = obs w1"
      using assms by (intro call_then_keeps onFulfilled_cb_keeps onRejected_cb_keeps)
    with Pair Return show ?thesis
      by (auto simp: resolveField_def split: prod.splits sum.splits bool.splits outcome.splits)
  qed
qed

lemma wrapped_resolve_keeps:
  assumes "hookFn a original w = ((None, After h), w1)"
    and "obs w1 = obs w"
    and "\<And>v w'. obs (snd (h v w')) = obs w'"
    and "\<And>w'. obs (snd (original a w')) = obs w'"
  shows "obs (snd (wrapped_resolve original hookFn a w)) = obs w"
  using assms resolveField_keeps [of obs h "original a" w1]
  by (simp add: wrapped_resolve_def)

lemma native_resolve_keeps:
  assumes "hookFn a original w = ((None, After h), w1)"
    and "obs w1 = obs w"
    and "\<And>v w'. obs (snd (h v w')) = obs w'"
    and "\<And>w'. obs (snd (original a w')) = obs w'"
  shows "obs (snd (native_resolve (Some hookFn) original a w)) = obs w"
proof (cases "original a w1")
  case (Pair r w2)
  with assms(2) assms(4) [of w1] have w2: "obs w2 = obs w"
    by simp
  show ?thesis
  proof (cases "settled r")
    case None
    with assms(1) Pair w2 show ?thesis
      by (simp add: native_resolve_def)
  next
    case (Some v)
    from assms(3) [of v w2] w2 have "obs (snd (h v w2)) = obs w"
      by simp
    with assms(1) Pair Some show ?thesis
      by (auto simp: native_resolve_def split: prod.splits hook_effect.splits)
  qed
qed

lemma guarded_hook_keeps_phases:
  "\<exists>h. resolverCalled_hook_guarded options a resolverFn w
          = ((None, After h), w\<lparr>reads := Suc (reads w)\<rparr>)
        \<and> (\<forall>v w'. phase_categories (snd (h v w')) = phase_categories w')"
  by (auto simp: resolverCalled_hook_guarded_def as_effect_def clock_defs categories_def
        phase_categories_def enabled_def split: prod.splits option.splits)

lemma plain_hook_keeps_phases:
  "\<exists>h. resolverCalled_hook options a resolverFn w
          = ((None, After h), w\<lparr>reads := Suc (reads w)\<rparr>)
        \<and> (\<forall>v w'. phase_categories (snd (h v w')) = phase_categories w')"
  by (auto simp: resolverCalled_hook_def as_effect_def clock_defs categories_def
        phase_categories_def split: prod.splits option.splits)

lemma call_fn_keeps_phases: "phase_categories (snd (call_fn f a w)) = phase_categories w"
  by (simp add: call_fn_def phase_categories_def categories_def)

lemma wrapped_keeps_phases:
  "phase_categories (snd (wrapped_resolve (call_fn f) (resolverCalled_hook_guarded options) a w))
     = phase_categories w"
proof -
  obtain h where "resolverCalled_hook_guarded options a (call_fn f) w
          = ((None, After h), w\<lparr>reads := Suc (reads w)\<rparr>)"
    and "\<And>v w'. phase_categories (snd (h v w')) = phase_categories w'"
    using guarded_hook_keeps_phases [of options a "call_fn f" w] by blast
  then show ?thesis
    by (intro wrapped_resolve_keeps [where h = h and ?w1.0 = "w\<lparr>reads := Suc (reads w)\<rparr>"])
       (simp_all add: call_fn_keeps_phases, simp add: phase_categories_def categories_def)
qed

lemma native_guarded_keeps_phases:
  assumes "\<And>w'. phase_categories (snd (original a w')) = phase_categories w'"
  shows "phase_categories
           (snd (native_resolve (Some (resolverCalled_hook_guarded options)) original a w))
         = phase_categories w"
proof -
  obtain h where "resolverCalled_hook_guarded options a original w
          = ((None, After h), w\<lparr>reads := Suc (reads w)\<rparr>)"
    and "\<And>v w'. phase_categories (snd (h v w')) = phase_categories w'"
    using guarded_hook_keeps_phases [of options a original w] by blast
  with assms show ?thesis
    by (intro native_resolve_keeps [where h = h and ?w1.0 = "w\<lparr>reads := Suc (reads w)\<rparr>"])
       (simp_all, simp add: phase_categories_def categories_def)
qed

lemma native_plain_keeps_phases:
  assumes "\<And>w'. phase_categories (snd (original a w')) = phase_categories w'"
  shows "phase_categories
           (snd (native_resolve (Some (resolverCalled_hook options)) original a w))
         = phase_categories w"
proof -
  obtain h where "resolverCalled_hook options a original w
          = ((None, After h), w\<lparr>reads := Suc (reads w)\<rparr>)"
    and "\<And>v w'. phase_categories (snd (h v w')) = phase_categories w'"
    using plain_hook_keeps_phases [of options a original w] by blast
  with assms show ?thesis
    by (intro native_resolve_keeps [where h = h and ?w1.0 = "w\<lparr>reads := Suc (reads w)\<rparr>"])
       (simp_all, simp add: phase_categories_def categories_def)
qed

lemma native_resolve_unhooked: "native_resolve None original a w = original a w"
  by (simp add: native_resolve_def)

lemma resolve_event_keeps_phases:
  "phase_categories
     (resolve_fields (onResolverCalled (useTiming cl raw))
        (current_schema (useTiming cl raw) [\<lparr>field_name = n, resolve = Some (call_fn f)\<rparr>])
        a w)
   = phase_categories w"
proof -
  let ?field = "\<lparr>field_name = n, resolve = Some (call_fn f)\<rparr>"
  let ?o = "merge_options raw"
  have orig: "originalResolver ?field = call_fn f"
    by (simp add: originalResolver_def)
  consider (off) "\<not> enabled (onResolverMeasurement ?o)"
    | (both) "enabled (onResolverMeasurement ?o)" "enabled (onSubscriptionMeasurement ?o)"
    | (exec) "enabled (onResolverMeasurement ?o)" "\<not> enabled (onSubscriptionMeasurement ?o)"
        "enabled (onExecutionMeasurement ?o)"
    | (none) "enabled (onResolverMeasurement ?o)" "\<not> enabled (onSubscriptionMeasurement ?o)"
        "\<not> enabled (onExecutionMeasurement ?o)"
    by blast
  then show ?thesis
  proof cases
    case off
    then show ?thesis
      by (simp add: resolve_fields_def current_schema_def useTiming_hooks orig
            native_resolve_unhooked call_fn_keeps_phases)
  next
    case both
    then show ?thesis
      by (simp add: resolve_fields_def current_schema_def useTiming_hooks
            schemaChange_hook_def originalResolver_wrapResolver orig
            native_guarded_keeps_phases wrapped_keeps_phases)
  next
    case exec
    then show ?thesis
      by (simp add: resolve_fields_def current_schema_def useTiming_hooks orig
            native_plain_keeps_phases call_fn_keeps_phases)
  next
    case none
    then show ?thesis
      by (simp add: resolve_fields_def current_schema_def useTiming_hooks orig
            native_resolve_unhooked call_fn_keeps_phases)
  qed
qed

lemma run_event_useTiming:
  assumes "run_event (useTiming cl raw) ev (c, w) = (k, c', w')"
  shows "k = Normal
     \<and> c' = (if enabled (onParsingMeasurement (merge_options raw))
                 \<and> skipped cl (merge_options raw) ev
              then c\<lparr>isIntrospection := True\<rparr> else c)
     \<and> phase_categories w' = phase_categories w @
          (if measured cl (merge_options raw) c ev then [event_category ev] else [])"
proof (cases "event_category ev = Resolver")
  case True
  then obtain i f where "ev = Resolve i f"
    by (cases ev) simp_all
  with assms resolve_event_keeps_phases [of cl raw "fieldName i" f] show ?thesis
    by auto
next
  case False
  show ?thesis
  proof (cases "measured cl (merge_options raw) c ev")
    case True
    then have on: "enabled (sink_of (merge_options raw) (event_category ev))"
      by (cases ev) simp_all
    then obtain s where s: "read_entry (sink_of (merge_options raw) (event_category ev)) = Some s"
      by (auto simp: enabled_def)
    from True have "\<not> skipped cl (merge_options raw) ev"
      by (cases ev) simp_all
    with assms phase_measured [OF True s, of w] False True show ?thesis
      by (auto simp: phase_categories_def categories_def normal_measurement_def)
  next
    case unmeasured: False
    with assms phase_not_measured [OF unmeasured False, of w] show ?thesis
      by simp
  qed
qed

section \<open>What a request measures\<close>

lemma run_request_useTiming:
  assumes "\<forall>ev\<in>set evs. \<not> (enabled (onParsingMeasurement (merge_options raw))
                              \<and> skipped cl (merge_options raw) ev)"
  shows "\<exists>w'. run_request (useTiming cl raw) evs (c, w) = (Normal, c, w')
           \<and> phase_categories w' = phase_categories w @
                map event_category (filter (measured cl (merge_options raw) c) evs)"
  using assms
proof (induction evs arbitrary: w)
  case Nil
  then show ?case by simp
next
  case (Cons ev evs)
  obtain k c' w1 where step: "run_event (useTiming cl raw) ev (c, w) = (k, c', w1)"
    by (metis prod_cases3)
  from Cons.prems have here: "\<not> (enabled (onParsingMeasurement (merge_options raw))
                              \<and> skipped cl (merge_options raw) ev)"
    by simp
  from run_event_useTiming [OF step] here
  have k: "k = Normal" and c': "c' = c"
    and cats: "phase_categories w1 = phase_categories w @
          (if measured cl (merge_options raw) c ev then [event_category ev] else [])"
    by auto
  from Cons.prems have rest: "\<forall>ev\<in>set evs. \<not> (enabled (onParsingMeasurement (merge_options raw))
                              \<and> skipped cl (merge_options raw) ev)"
    by simp
  from Cons.IH [OF rest, of w1] obtain w' where
    run: "run_request (useTiming cl raw) evs (c, w1) = (Normal, c, w')"
    and cats': "phase_categories w' = phase_categories w1 @
                map event_category (filter (measured cl (merge_options raw) c) evs)"
    by blast
  from step k c' run have "run_request (useTiming cl raw) (ev # evs) (c, w) = (Normal, c, w')"
    by simp
  moreover from cats cats' have "phase_categories w' = phase_categories w @
      map event_category (filter (measured cl (merge_options raw) c) (ev # evs))"
    by simp
  ultimately show ?case by blast
qed

lemma run_request_completes: "fst (run_request (useTiming cl raw) evs s) = Normal"
proof (induction evs arbitrary: s)
  case Nil
  then show ?case by simp
next
  case (Cons ev evs)
  obtain c w where s: "s = (c, w)"
    by (cases s)
  obtain k c' w' where step: "run_event (useTiming cl raw) ev (c, w) = (k, c', w')"
    by (metis prod_cases3)
  from run_event_useTiming [OF step] have "k = Normal"
    by simp
  with s step Cons.IH [of "(c', w')"] show ?case
    by simp
qed

lemma run_request_append:
  "run_request p (xs @ ys) s =
     (case run_request p xs s of
        (Normal, s') \<Rightarrow> run_request p ys s'
      | (Abrupt e, s') \<Rightarrow> (Abrupt e, s'))"
  by (induction xs arbitrary: s) (auto split: prod.splits completion.splits)

section \<open>The marker and the parse hook\<close>

lemma explicit_undefined_disables:
  "sink_of raw cat = Present None \<Longrightarrow> \<not> enabled (sink_of (merge_options (Some raw)) cat)"
  by (cases cat) (simp_all add: option_defs)

lemma not_parse_not_skipped: "\<not> is_parse ev \<Longrightarrow> \<not> skipped cl options ev"
  by (cases ev) simp_all

lemma skipped_parse_sets_marker:
  assumes "read_entry (skipIntrospection (merge_options raw)) = Some True"
    and "enabled (onParsingMeasurement (merge_options raw))"
    and "cl source"
  shows "run_event (useTiming cl raw) (Parse source) (c, w)
           = (Normal, c\<lparr>isIntrospection := True\<rparr>, w)"
  using assms by (simp add: useTiming_onParse parse_hook_def run_after_def)

lemma marked_measures_nothing:
  "isIntrospection c \<Longrightarrow> \<not> is_parse ev \<Longrightarrow> \<not> measured cl options c ev"
  by (cases ev) simp_all








section \<open>Requests for introspection\<close>

lemma core_of_phase_categories:
  "filter (\<lambda>x. x \<in> {Parsing, Validation, Execution}) (phase_categories w)
     = filter (\<lambda>x. x \<in> {Parsing, Validation, Execution}) (categories w)"
  by (auto simp: phase_categories_def intro: filter_cong)

lemma is_parse_category: "is_parse ev \<Longrightarrow> event_category ev = Parsing"
  by (cases ev) simp_all

text \<open>
  C5, as stated, fails in two ways. With the defaults and skipIntrospection, a request
  whose operation text is classified as introspection has the marker set by the parse
  hook, and a resolver invoked in it is measured all the same: the per-resolver hook
  does not read the marker. With the parsing sink set to \<^verbatim>\<open>undefined\<close> there is no parse
  hook: the marker is not set and the validation of the same operation is measured.
\<close>

theorem introspection_still_measured:
  "isIntrospection (fst (snd (run_request (useTiming mentions_schema (Some skipping_options))
       [Parse introspection_query, Execute ''q'', Resolve some_info answer_fn]
       (plain_context, stub_world))))
   \<and> categories (snd (snd (run_request (useTiming mentions_schema (Some skipping_options))
       [Parse introspection_query, Execute ''q'', Resolve some_info answer_fn]
       (plain_context, stub_world)))) = [Resolver]
   \<and> \<not> isIntrospection (fst (snd (run_request
       (useTiming mentions_schema (Some skipping_unparsed_options))
       [Parse introspection_query, Validate ''doc''] (plain_context, stub_world))))
   \<and> categories (snd (snd (run_request
       (useTiming mentions_schema (Some skipping_unparsed_options))
       [Parse introspection_query, Validate ''doc''] (plain_context, stub_world))))
       = [Validation]"
  by (simp add: scenario_defs option_defs useTiming_hooks bracket_def run_after_def
        parse_hook_def validate_hook_def execute_hook_def native_resolve_def
        resolve_fields_def current_schema_def schemaChange_hook_def wrap_defs
        resolverCalled_hook_guarded_def settled_def isThenable_def
        clock_defs categories_def)

text \<open>
  C5, amended: when skipIntrospection is enabled, the parsing sink is enabled and the
  operation text is classified as an introspection query, the parse hook sets the marker
  without reading the clock or emitting anything, and the request, whose one parse this
  is and comes before its validation and execution, ends with the marker set and with
  no measurement emitted for parsing, validation or execution.
\<close>

theorem introspection_skips_phases:
  assumes "read_entry (skipIntrospection (merge_options raw)) = Some True"
    and "enabled (onParsingMeasurement (merge_options raw))"
    and "cl source"
    and "\<forall>ev\<in>set pre. event_category ev \<notin> {Parsing, Validation, Execution}"
    and "\<forall>ev\<in>set evs. \<not> is_parse ev"
  shows "run_event (useTiming cl raw) (Parse source) (c, v)
           = (Normal, c\<lparr>isIntrospection := True\<rparr>, v)
     \<and> fst (run_request (useTiming cl raw) (pre @ Parse source # evs) (c, w)) = Normal
     \<and> fst (snd (run_request (useTiming cl raw) (pre @ Parse source # evs) (c, w)))
         = c\<lparr>isIntrospection := True\<rparr>
     \<and> filter (\<lambda>x. x \<in> {Parsing, Validation, Execution})
          (categories (snd (snd
             (run_request (useTiming cl raw) (pre @ Parse source # evs) (c, w)))))
        = filter (\<lambda>x. x \<in> {Parsing, Validation, Execution}) (categories w)"
proof -
  let ?c = "c\<lparr>isIntrospection := True\<rparr>"
  let ?o = "merge_options raw"
  let ?core = "\<lambda>x. x \<in> {Parsing, Validation, Execution}"
  have parse: "run_event (useTiming cl raw) (Parse source) (c, u) = (Normal, ?c, u)" for u
    using assms(1-3) by (rule skipped_parse_sets_marker)
  from assms(4) have "\<forall>ev\<in>set pre. \<not> is_parse ev"
    by (auto dest: is_parse_category)
  then have "\<forall>ev\<in>set pre. \<not> (enabled (onParsingMeasurement ?o) \<and> skipped cl ?o ev)"
    by (simp add: not_parse_not_skipped)
  from run_request_useTiming [OF this, of c w] obtain w1 where
    before: "run_request (useTiming cl raw) pre (c, w) = (Normal, c, w1)"
    and cats1: "phase_categories w1 = phase_categories w @
        map event_category (filter (measured cl ?o c) pre)"
    by blast
  from assms(5) have "\<forall>ev\<in>set evs. \<not> (enabled (onParsingMeasurement ?o) \<and> skipped cl ?o ev)"
    by (simp add: not_parse_not_skipped)
  from run_request_useTiming [OF this, of ?c w1] obtain w2 where
    after: "run_request (useTiming cl raw) evs (?c, w1) = (Normal, ?c, w2)"
    and cats2: "phase_categories w2 = phase_categories w1 @
        map event_category (filter (measured cl ?o ?c) evs)"
    by blast
  have "filter (measured cl ?o ?c) evs = []"
    using assms(5) by (simp add: filter_empty_conv marked_measures_nothing)
  with cats2 have same: "phase_categories w2 = phase_categories w1"
    by simp
  from assms(4) have "filter ?core (map event_category (filter (measured cl ?o c) pre)) = []"
    by (auto simp: filter_empty_conv)
  with cats1 same have "filter ?core (phase_categories w2) = filter ?core (phase_categories w)"
    by simp
  then have core: "filter ?core (categories w2) = filter ?core (categories w)"
    by (simp only: core_of_phase_categories)
  from before parse [of w1] after
  have "run_request (useTiming cl raw) (pre @ Parse source # evs) (c, w) = (Normal, ?c, w2)"
    by (simp add: run_request_append)
  with core parse [of v] show ?thesis
    by simp
qed

theorem introspection_skips_phases_witness:
  "read_entry (skipIntrospection (merge_options (Some skipping_options))) = Some True
   \<and> enabled (onParsingMeasurement (merge_options (Some skipping_options)))
   \<and> mentions_schema introspection_query
   \<and> run_event (useTiming mentions_schema (Some skipping_options)) (Parse introspection_query)
        (plain_context, stub_world)
      = (Normal, plain_context\<lparr>isIntrospection := True\<rparr>, stub_world)
   \<and> fst (snd (run_request (useTiming mentions_schema (Some skipping_options))
        ([ContextBuild] @ Parse introspection_query #
           [Validate ''doc'', Execute ''q'', Resolve some_info answer_fn])
        (plain_context, stub_world)))
      = plain_context\<lparr>isIntrospection := True\<rparr>
   \<and> filter (\<lambda>x. x \<in> {Parsing, Validation, Execution})
        (categories (snd (snd (run_request (useTiming mentions_schema (Some skipping_options))
           ([ContextBuild] @ Parse introspection_query #
              [Validate ''doc'', Execute ''q'', Resolve some_info answer_fn])
           (plain_context, stub_world))))) = []"
proof -
  have skip: "read_entry (skipIntrospection (merge_options (Some skipping_options))) = Some True"
    by (simp add: scenario_defs option_defs)
  have on: "enabled (onParsingMeasurement (merge_options (Some skipping_options)))"
    by (simp add: scenario_defs option_defs)
  have cl: "mentions_schema introspection_query"
    by (simp add: mentions_schema_def)
  have pre: "\<forall>ev\<in>set [ContextBuild]. event_category ev \<notin> {Parsing, Validation, Execution}"
    by simp
  have rest: "\<forall>ev\<in>set [Validate ''doc'', Execute ''q'', Resolve some_info answer_fn].
                \<not> is_parse ev"
    by simp
  have none: "categories stub_world = []"
    by (simp add: categories_def stub_world_def)
  from introspection_skips_phases [where cl = mentions_schema
         and source = introspection_query and c = plain_context and w = stub_world
         and v = stub_world, OF skip on cl pre rest]
       skip on cl
  show ?thesis
    unfolding none
    by (simp del: run_request.simps run_event.simps append.simps)
qed

section \<open>One measurement for each resolver invocation\<close>

lemma default_resolver_hooks:
  "onSchemaChange (useTiming cl None) = Some (schemaChange_hook (merge_options None))"
  "onResolverCalled (useTiming cl None) = Some (resolverCalled_hook_guarded (merge_options None))"
  "read_entry (onResolverMeasurement (merge_options None)) = Some ConsoleLog"
  by (simp_all add: useTiming_hooks option_defs)

lemma originalResolver_given:
  "originalResolver \<lparr>field_name = n, resolve = Some r\<rparr> = r"
  by (simp add: originalResolver_def)

lemma wrapper_on_throw:
  assumes "read_entry (onResolverMeasurement options) = Some s" and "fn_body f a = Throw e"
  shows "wrapped_resolve (call_fn f) (resolverCalled_hook_guarded options) a w =
           (Throw e,
            w\<lparr>reads := reads w + 2,
              emitted := emitted w @
                [\<lparr>m_category = Resolver, m_sink = s, m_subject = OfInfo (info a),
                  m_timing = elapsed (hr_diff (clock w (Suc (reads w))) (clock w (reads w)))\<rparr>],
              calls := calls w @ [fn_id f]\<rparr>)"
  using assms
  by (simp add: wrapped_resolve_def resolverCalled_hook_guarded_def resolveField_def
        call_fn_def as_effect_def process_hrtime_def deltaFrom_def call_sink_def Let_def
        enabled_def)

lemma native_around_wrapper_on_throw:
  assumes "read_entry (onResolverMeasurement options) = Some s" and "fn_body f a = Throw e"
  shows "native_resolve (Some (resolverCalled_hook_guarded options))
           (wrapped_resolve (call_fn f) (resolverCalled_hook_guarded options)) a w =
           (Throw e,
            w\<lparr>reads := reads w + 4,
              emitted := emitted w @
                [\<lparr>m_category = Resolver, m_sink = s, m_subject = OfInfo (info a),
                  m_timing = elapsed (hr_diff (clock w (reads w + 2)) (clock w (reads w + 1)))\<rparr>,
                 \<lparr>m_category = Resolver, m_sink = s, m_subject = OfInfo (info a),
                  m_timing = elapsed (hr_diff (clock w (reads w + 3)) (clock w (reads w)))\<rparr>],
              calls := calls w @ [fn_id f]\<rparr>)"
  using assms
  by (simp add: native_resolve_def wrapper_on_throw settled_def
        resolverCalled_hook_guarded_def as_effect_def process_hrtime_def deltaFrom_def
        call_sink_def Let_def enabled_def eval_nat_numeral)

lemma native_on_throw:
  assumes "read_entry (onResolverMeasurement options) = Some s" and "fn_body f a = Throw e"
  shows "native_resolve (Some (resolverCalled_hook options)) (call_fn f) a w =
           (Throw e,
            w\<lparr>reads := reads w + 2,
              emitted := emitted w @
                [\<lparr>m_category = Resolver, m_sink = s, m_subject = OfInfo (info a),
                  m_timing = elapsed (hr_diff (clock w (Suc (reads w))) (clock w (reads w)))\<rparr>],
              calls := calls w @ [fn_id f]\<rparr>)"
  using assms
  by (simp add: native_resolve_def settled_def call_fn_def
        resolverCalled_hook_def as_effect_def process_hrtime_def deltaFrom_def
        call_sink_def Let_def enabled_def)

text \<open>
  C6 fails on the branch it names. With the default options the subscription and the
  resolver sink are both configured: useTiming registers onSchemaChange, which wraps
  every field of the schema, and onResolverCalled as well. The pipeline resolves through
  the schema it was given back, under its per-resolver hook: one invocation of a
  resolver that throws calls the resolver once and is measured twice, once by the
  wrapper and once by the hook, over two different spans. With the subscription sink
  set to \<^verbatim>\<open>undefined\<close>, the branch of the execution sink registers the hook alone and
  the same invocation is measured once.
\<close>

theorem resolver_measured_twice:
  "onSchemaChange (useTiming mentions_schema None) \<noteq> None
   \<and> onResolverCalled (useTiming mentions_schema None) \<noteq> None
   \<and> \<not> isIntrospection plain_context
   \<and> categories (snd (snd (run_request (useTiming mentions_schema None)
        [Resolve some_info throwing_fn] (plain_context, stub_world)))) = [Resolver, Resolver]
   \<and> map (\<lambda>m. ns (m_timing m))
        (emitted (snd (snd (run_request (useTiming mentions_schema None)
           [Resolve some_info throwing_fn] (plain_context, stub_world)))))
      = [5000000, 15000000]
   \<and> calls (snd (snd (run_request (useTiming mentions_schema None)
        [Resolve some_info throwing_fn] (plain_context, stub_world)))) = [3]
   \<and> categories (snd (snd (run_request (useTiming mentions_schema (Some unsubscribed_options))
        [Resolve some_info throwing_fn] (plain_context, stub_world)))) = [Resolver]"
proof -
  have throws: "fn_body throwing_fn a = Throw (Str ''boom'')" for a
    by (simp add: throwing_fn_def)
  have id: "fn_id throwing_fn = 3"
    by (simp add: throwing_fn_def)
  have sibling:
    "onSchemaChange (useTiming mentions_schema (Some unsubscribed_options)) = None"
    "onResolverCalled (useTiming mentions_schema (Some unsubscribed_options))
       = Some (resolverCalled_hook (merge_options (Some unsubscribed_options)))"
    "read_entry (onResolverMeasurement (merge_options (Some unsubscribed_options)))
       = Some ConsoleLog"
    by (simp_all add: useTiming_hooks unsubscribed_options_def option_defs)
  have twice: "run_request (useTiming mentions_schema None)
        [Resolve some_info throwing_fn] (plain_context, stub_world)
      = (Normal, plain_context,
         stub_world\<lparr>reads := 4,
           emitted :=
             [\<lparr>m_category = Resolver, m_sink = ConsoleLog, m_subject = OfInfo some_info,
               m_timing = \<lparr>ns = 5000000\<rparr>\<rparr>,
              \<lparr>m_category = Resolver, m_sink = ConsoleLog, m_subject = OfInfo some_info,
               m_timing = \<lparr>ns = 15000000\<rparr>\<rparr>],
           calls := [3]\<rparr>)"
    by (simp add: default_resolver_hooks resolve_fields_def current_schema_def
          schemaChange_hook_def originalResolver_wrapResolver originalResolver_given
          native_around_wrapper_on_throw [OF default_resolver_hooks(3) throws] id
          stub_world_def hr_diff_def timing_defs)
  have once: "run_request (useTiming mentions_schema (Some unsubscribed_options))
        [Resolve some_info throwing_fn] (plain_context, stub_world)
      = (Normal, plain_context,
         stub_world\<lparr>reads := 2,
           emitted :=
             [\<lparr>m_category = Resolver, m_sink = ConsoleLog, m_subject = OfInfo some_info,
               m_timing = \<lparr>ns = 5000000\<rparr>\<rparr>],
           calls := [3]\<rparr>)"
    by (simp add: sibling resolve_fields_def current_schema_def originalResolver_given
          native_on_throw [OF sibling(3) throws] id stub_world_def hr_diff_def timing_defs)
  show ?thesis
    unfolding twice once
    by (simp add: default_resolver_hooks categories_def plain_context_def)
qed

section \<open>Disabled categories\<close>

lemma native_hook_never_raises:
  "fst (native_resolve (onResolverCalled (useTiming cl raw)) (call_fn f) a w) = fn_body f a"
  by (auto simp: useTiming_onResolverCalled native_resolve_def resolverCalled_hook_def
        resolverCalled_hook_guarded_def as_effect_def call_fn_def clock_defs enabled_def
        split: prod.splits option.splits hook_effect.splits)

lemma disabled_not_registered:
  "\<not> enabled (sink_of (merge_options raw) cat) \<Longrightarrow> \<not> registered (useTiming cl raw) cat"
  by (cases cat) (simp_all add: useTiming_hooks)

lemma disabled_event_reads_no_clock:
  assumes "\<not> enabled (sink_of (merge_options raw) (event_category ev))"
  shows "reads (snd (snd (run_event (useTiming cl raw) ev (c, w)))) = reads w
     \<and> emitted (snd (snd (run_event (useTiming cl raw) ev (c, w)))) = emitted w"
  using assms
  by (cases ev)
     (simp_all add: useTiming_hooks bracket_def resolve_fields_def current_schema_def
        native_resolve_def originalResolver_def call_fn_def)

text \<open>
  C9: a category whose sink the caller sets to \<^verbatim>\<open>undefined\<close> is disabled in the merged
  options, and useTiming registers no hook for it (for the resolver category neither
  onResolverCalled nor onSchemaChange). An event of that category therefore reads no
  clock and emits nothing. The hooks that are registered call a sink the merged options
  do hold: no request ends with the TypeError of calling \<^verbatim>\<open>undefined\<close>, and the
  per-resolver hook hands back the resolver's own outcome.
\<close>

theorem explicit_undefined_registers_nothing:
  assumes "sink_of raw cat = Present None"
  shows "\<not> enabled (sink_of (merge_options (Some raw)) cat)
     \<and> \<not> registered (useTiming cl (Some raw)) cat
     \<and> (event_category ev = cat \<longrightarrow>
          reads (snd (snd (run_event (useTiming cl (Some raw)) ev (c, w)))) = reads w
          \<and> emitted (snd (snd (run_event (useTiming cl (Some raw)) ev (c, w)))) = emitted w)
     \<and> fst (run_request (useTiming cl (Some raw)) evs (c, w)) = Normal
     \<and> fst (native_resolve (onResolverCalled (useTiming cl (Some raw))) (call_fn f) a w)
         = fn_body f a"
proof -
  from assms have off: "\<not> enabled (sink_of (merge_options (Some raw)) cat)"
    by (rule explicit_undefined_disables)
  moreover from off have "\<not> registered (useTiming cl (Some raw)) cat"
    by (rule disabled_not_registered)
  moreover from off have "event_category ev = cat \<longrightarrow>
          reads (snd (snd (run_event (useTiming cl (Some raw)) ev (c, w)))) = reads w
          \<and> emitted (snd (snd (run_event (useTiming cl (Some raw)) ev (c, w)))) = emitted w"
    using disabled_event_reads_no_clock [of "Some raw" ev cl c w] by blast
  ultimately show ?thesis
    using run_request_completes [of cl "Some raw" evs "(c, w)"]
          native_hook_never_raises [of cl "Some raw" f a w]
    by blast
qed

theorem explicit_undefined_registers_nothing_witness:
  "sink_of unvalidated_options Validation = Present None
   \<and> onValidate (useTiming mentions_schema (Some unvalidated_options)) = None
   \<and> onParse (useTiming mentions_schema (Some unvalidated_options)) \<noteq> None
   \<and> reads (snd (snd (run_event (useTiming mentions_schema (Some unvalidated_options))
        (Validate ''doc'') (plain_context, stub_world)))) = 0
   \<and> emitted (snd (snd (run_event (useTiming mentions_schema (Some unvalidated_options))
        (Validate ''doc'') (plain_context, stub_world)))) = []
   \<and> fst (run_request (useTiming mentions_schema (Some unvalidated_options))
        [Parse ''{ answer }'', Validate ''doc'', Execute ''q''] (plain_context, stub_world))
      = Normal"
proof -
  have undef: "sink_of unvalidated_options Validation = Present None"
    by (simp add: unvalidated_options_def)
  have parse: "onParse (useTiming mentions_schema (Some unvalidated_options)) \<noteq> None"
    by (simp add: useTiming_onParse unvalidated_options_def option_defs)
  have start: "reads stub_world = 0 \<and> emitted stub_world = []"
    by (simp add: stub_world_def)
  from explicit_undefined_registers_nothing [OF undef, of mentions_schema
         "Validate ''doc''" plain_context stub_world
         "[Parse ''{ answer }'', Validate ''doc'', Execute ''q'']" answer_fn some_args]
       undef parse start
  show ?thesis
    by (simp del: run_request.simps run_event.simps)
qed

end
